theory Spec2Isabelle
  imports Main "HOL-Library.Word" "HOL-Library.Sublist"
begin

unbundle bit_operations_syntax

section \<open>JavaScript strings\<close>

text \<open>
  A JavaScript string is a sequence of 16-bit code units. \<open>js\<close> turns an Isabelle
  string literal (Latin-1 characters) into such a sequence.
\<close>

type_synonym jstring = "16 word list"

definition js :: "string \<Rightarrow> jstring" where
  "js s = map (\<lambda>c. word_of_nat (of_char c)) s"

text \<open>
  \<open>String.prototype.trim\<close> removes WhiteSpace and LineTerminator code units from both
  ends (ECMAScript, TrimString).
\<close>

definition isWhiteSpace :: "16 word \<Rightarrow> bool" where
  "isWhiteSpace c \<longleftrightarrow>
     c = 0x09 \<or> c = 0x0A \<or> c = 0x0B \<or> c = 0x0C \<or> c = 0x0D \<or> c = 0x20 \<or> c = 0xA0 \<or>
     c = 0x1680 \<or> (0x2000 \<le> c \<and> c \<le> 0x200A) \<or> c = 0x2028 \<or> c = 0x2029 \<or>
     c = 0x202F \<or> c = 0x205F \<or> c = 0x3000 \<or> c = 0xFEFF"

definition trimStart :: "jstring \<Rightarrow> jstring" where
  "trimStart s = dropWhile isWhiteSpace s"

definition trimEnd :: "jstring \<Rightarrow> jstring" where
  "trimEnd s = rev (dropWhile isWhiteSpace (rev s))"

definition trim :: "jstring \<Rightarrow> jstring" where
  "trim s = trimEnd (trimStart s)"

section \<open>JSON values, \<open>JSON.stringify\<close> and \<open>JSON.parse\<close>\<close>

text \<open>
  The values \<open>JSON.parse\<close> can produce. The code under study only inspects the type of a
  value (\<open>Array.isArray\<close>, \<open>typeof\<close>), so a number keeps the text of its literal.
\<close>

datatype jsval =
    JNull
  | JBool bool
  | JNum jstring
  | JStr jstring
  | JArr "jsval list"
  | JObj "(jstring \<times> jsval) list"

subsection \<open>\<open>JSON.stringify\<close> on an array of strings\<close>

definition hexdigit :: "nat \<Rightarrow> 16 word" where
  "hexdigit n = (if n < 10 then 0x30 + word_of_nat n else 0x61 + word_of_nat (n - 10))"

definition uescape :: "16 word \<Rightarrow> jstring" where
  "uescape c = (let n = unat c in
     [0x5C, 0x75, hexdigit (n div 4096), hexdigit (n div 256 mod 16),
      hexdigit (n div 16 mod 16), hexdigit (n mod 16)])"

definition isHighSurrogate :: "16 word \<Rightarrow> bool" where
  "isHighSurrogate c \<longleftrightarrow> 0xD800 \<le> c \<and> c \<le> 0xDBFF"

definition isLowSurrogate :: "16 word \<Rightarrow> bool" where
  "isLowSurrogate c \<longleftrightarrow> 0xDC00 \<le> c \<and> c \<le> 0xDFFF"

text \<open>QuoteJSONString: the escape of one code unit that is not a surrogate.\<close>

definition quoteUnit :: "16 word \<Rightarrow> jstring" where
  "quoteUnit c =
     (if c = 0x08 then [0x5C, 0x62]
      else if c = 0x09 then [0x5C, 0x74]
      else if c = 0x0A then [0x5C, 0x6E]
      else if c = 0x0C then [0x5C, 0x66]
      else if c = 0x0D then [0x5C, 0x72]
      else if c = 0x22 then [0x5C, 0x22]
      else if c = 0x5C then [0x5C, 0x5C]
      else if c < 0x20 then uescape c
      else [c])"

text \<open>
  A surrogate pair is copied; a lone surrogate is written as a \<open>\u\<close> escape
  (well-formed \<open>JSON.stringify\<close>).
\<close>

fun quoteBody :: "jstring \<Rightarrow> jstring" where
  "quoteBody [] = []"
| "quoteBody [c] = (if isHighSurrogate c \<or> isLowSurrogate c then uescape c else quoteUnit c)"
| "quoteBody (c # d # cs) =
     (if isHighSurrogate c then
        (if isLowSurrogate d then c # d # quoteBody cs else uescape c @ quoteBody (d # cs))
      else if isLowSurrogate c then uescape c @ quoteBody (d # cs)
      else quoteUnit c @ quoteBody (d # cs))"

definition quoteJSONString :: "jstring \<Rightarrow> jstring" where
  "quoteJSONString s = 0x22 # quoteBody s @ [0x22]"

fun elementsText :: "jstring list \<Rightarrow> jstring" where
  "elementsText [] = [0x5D]"
| "elementsText [x] = quoteJSONString x @ [0x5D]"
| "elementsText (x # y # ys) = quoteJSONString x @ 0x2C # elementsText (y # ys)"

definition JSON_stringify :: "jstring list \<Rightarrow> jstring" where
  "JSON_stringify array = 0x5B # elementsText array"

subsection \<open>\<open>JSON.parse\<close>\<close>

definition isJsonWs :: "16 word \<Rightarrow> bool" where
  "isJsonWs c \<longleftrightarrow> c = 0x20 \<or> c = 0x09 \<or> c = 0x0A \<or> c = 0x0D"

definition skipWs :: "jstring \<Rightarrow> jstring" where
  "skipWs s = dropWhile isJsonWs s"

definition isDigit :: "16 word \<Rightarrow> bool" where
  "isDigit c \<longleftrightarrow> 0x30 \<le> c \<and> c \<le> 0x39"

definition hexval :: "16 word \<Rightarrow> nat option" where
  "hexval c =
     (if 0x30 \<le> c \<and> c \<le> 0x39 then Some (unat c - 48)
      else if 0x61 \<le> c \<and> c \<le> 0x66 then Some (unat c - 87)
      else if 0x41 \<le> c \<and> c \<le> 0x46 then Some (unat c - 55)
      else None)"

definition unescape :: "16 word \<Rightarrow> 16 word option" where
  "unescape e =
     (if e = 0x22 then Some 0x22
      else if e = 0x5C then Some 0x5C
      else if e = 0x2F then Some 0x2F
      else if e = 0x62 then Some 0x08
      else if e = 0x66 then Some 0x0C
      else if e = 0x6E then Some 0x0A
      else if e = 0x72 then Some 0x0D
      else if e = 0x74 then Some 0x09
      else None)"

definition hex4 :: "16 word \<Rightarrow> 16 word \<Rightarrow> 16 word \<Rightarrow> 16 word \<Rightarrow> 16 word option" where
  "hex4 a b c d =
     (case (hexval a, hexval b, hexval c, hexval d) of
        (Some h3, Some h2, Some h1, Some h0) \<Rightarrow>
          Some (word_of_nat (4096 * h3 + 256 * h2 + 16 * h1 + h0))
      | _ \<Rightarrow> None)"

definition consChar :: "16 word \<Rightarrow> (jstring \<times> jstring) option \<Rightarrow> (jstring \<times> jstring) option" where
  "consChar c r = (case r of None \<Rightarrow> None | Some (s, rest) \<Rightarrow> Some (c # s, rest))"

text \<open>
  The characters of a string literal after its opening quote: the string read and the
  text after the closing quote, or \<open>None\<close> for a syntax error.
\<close>

fun parseChars :: "jstring \<Rightarrow> (jstring \<times> jstring) option" where
  "parseChars [] = None"
| "parseChars (c # cs) =
     (if c = 0x22 then Some ([], cs)
      else if c = 0x5C then
        (case cs of
           [] \<Rightarrow> None
         | e # es \<Rightarrow>
             if e = 0x75 then
               (case es of
                  a # b # c' # d # rest \<Rightarrow>
                    (case hex4 a b c' d of
                       None \<Rightarrow> None
                     | Some w \<Rightarrow> consChar w (parseChars rest))
                | _ \<Rightarrow> None)
             else
               (case unescape e of
                  None \<Rightarrow> None
                | Some w \<Rightarrow> consChar w (parseChars es)))
      else if c < 0x20 then None
      else consChar c (parseChars cs))"

text \<open>A number literal: its text and the text after it.\<close>

definition parseFrac :: "jstring \<Rightarrow> (jstring \<times> jstring) option" where
  "parseFrac s =
     (case s of
        [] \<Rightarrow> Some ([], s)
      | c # cs \<Rightarrow>
          if c = 0x2E then
            (if takeWhile isDigit cs = [] then None
             else Some (c # takeWhile isDigit cs, dropWhile isDigit cs))
          else Some ([], s))"

definition parseExp :: "jstring \<Rightarrow> (jstring \<times> jstring) option" where
  "parseExp s =
     (case s of
        [] \<Rightarrow> Some ([], s)
      | c # cs \<Rightarrow>
          if c = 0x65 \<or> c = 0x45 then
            (let (sg, r) = (case cs of
                              [] \<Rightarrow> ([], cs)
                            | x # xs \<Rightarrow> if x = 0x2B \<or> x = 0x2D then ([x], xs) else ([], cs))
             in if takeWhile isDigit r = [] then None
                else Some (c # sg @ takeWhile isDigit r, dropWhile isDigit r))
          else Some ([], s))"

definition parseNumber :: "jstring \<Rightarrow> (jstring \<times> jstring) option" where
  "parseNumber s =
     (let (sg, r0) = (case s of
                        [] \<Rightarrow> ([], s)
                      | c # cs \<Rightarrow> if c = 0x2D then ([c], cs) else ([], s))
      in case r0 of
           [] \<Rightarrow> None
         | d # ds \<Rightarrow>
             if \<not> isDigit d then None
             else
               (let (ip, r1) = (if d = 0x30 then ([d], ds)
                                else (takeWhile isDigit r0, dropWhile isDigit r0))
                in case parseFrac r1 of
                     None \<Rightarrow> None
                   | Some (fp, r2) \<Rightarrow>
                       (case parseExp r2 of
                          None \<Rightarrow> None
                        | Some (ep, r3) \<Rightarrow> Some (sg @ ip @ fp @ ep, r3))))"

text \<open>The values without parts: \<open>null\<close>, \<open>true\<close>, \<open>false\<close> and the numbers.\<close>

definition parsePrimitive :: "jstring \<Rightarrow> (jsval \<times> jstring) option" where
  "parsePrimitive s =
     (if take 4 s = js ''null'' then Some (JNull, drop 4 s)
      else if take 4 s = js ''true'' then Some (JBool True, drop 4 s)
      else if take 5 s = js ''false'' then Some (JBool False, drop 5 s)
      else (case parseNumber s of
              None \<Rightarrow> None
            | Some (l, r) \<Rightarrow> Some (JNum l, r)))"

text \<open>
  The recursive descent over values, array elements and object members. The first
  argument bounds the number of nested calls; \<open>JSON_parse\<close> starts it at twice the
  length of the text plus two, which no parse exceeds (lemma \<open>JSON_parse_bound\<close>).
  \<open>None\<close> is the \<open>SyntaxError\<close>.
\<close>

fun parseValue :: "nat \<Rightarrow> jstring \<Rightarrow> (jsval \<times> jstring) option"
  and parseElements :: "nat \<Rightarrow> jstring \<Rightarrow> (jsval list \<times> jstring) option"
  and parseMembers :: "nat \<Rightarrow> jstring \<Rightarrow> ((jstring \<times> jsval) list \<times> jstring) option"
where
  "parseValue 0 s = None"
| "parseValue (Suc n) s =
     (case skipWs s of
        [] \<Rightarrow> None
      | c # cs \<Rightarrow>
          if c = 0x22 then
            (case parseChars cs of None \<Rightarrow> None | Some (str, r) \<Rightarrow> Some (JStr str, r))
          else if c = 0x5B then
            (case skipWs cs of
               [] \<Rightarrow> None
             | d # ds \<Rightarrow>
                 if d = 0x5D then Some (JArr [], ds)
                 else (case parseElements n cs of
                         None \<Rightarrow> None
                       | Some (vs, r) \<Rightarrow> Some (JArr vs, r)))
          else if c = 0x7B then
            (case skipWs cs of
               [] \<Rightarrow> None
             | d # ds \<Rightarrow>
                 if d = 0x7D then Some (JObj [], ds)
                 else (case parseMembers n cs of
                         None \<Rightarrow> None
                       | Some (ms, r) \<Rightarrow> Some (JObj ms, r)))
          else parsePrimitive (c # cs))"
| "parseElements 0 s = None"
| "parseElements (Suc n) s =
     (case parseValue n s of
        None \<Rightarrow> None
      | Some (v, r) \<Rightarrow>
          (case skipWs r of
             [] \<Rightarrow> None
           | c # cs \<Rightarrow>
               if c = 0x2C then
                 (case parseElements n cs of
                    None \<Rightarrow> None
                  | Some (vs, r') \<Rightarrow> Some (v # vs, r'))
               else if c = 0x5D then Some ([v], cs)
               else None))"
| "parseMembers 0 s = None"
| "parseMembers (Suc n) s =
     (case skipWs s of
        [] \<Rightarrow> None
      | q # qs \<Rightarrow>
          if q \<noteq> 0x22 then None
          else
            (case parseChars qs of
               None \<Rightarrow> None
             | Some (k, r) \<Rightarrow>
                 (case skipWs r of
                    [] \<Rightarrow> None
                  | c # cs \<Rightarrow>
                      if c \<noteq> 0x3A then None
                      else
                        (case parseValue n cs of
                           None \<Rightarrow> None
                         | Some (v, r') \<Rightarrow>
                             (case skipWs r' of
                                [] \<Rightarrow> None
                              | e # es \<Rightarrow>
                                  if e = 0x2C then
                                    (case parseMembers n es of
                                       None \<Rightarrow> None
                                     | Some (ms, r'') \<Rightarrow> Some ((k, v) # ms, r''))
                                  else if e = 0x7D then Some ([(k, v)], es)
                                  else None)))))"

definition JSON_parse :: "jstring \<Rightarrow> jsval option" where
  "JSON_parse text =
     (case parseValue (2 * length text + 2) text of
        None \<Rightarrow> None
      | Some (v, r) \<Rightarrow> if skipWs r = [] then Some v else None)"

section \<open>The ticket hook: tag columns\<close>

text \<open>
  What a tag column can hold when it is read (\<open>string | null | any[]\<close>): \<open>null\<close>, an
  array of arbitrary values, or a text.
\<close>

datatype stored = SNull | SArr "jsval list" | SStr jstring

text \<open>\<open>filter(item => typeof item === 'string' && item.trim())\<close>\<close>

fun keepItem :: "jsval \<Rightarrow> jstring option" where
  "keepItem (JStr s) = (if trim s \<noteq> [] then Some s else None)"
| "keepItem _ = None"

definition filterStrings :: "jsval list \<Rightarrow> jstring list" where
  "filterStrings a = List.map_filter keepItem a"

fun safeJsonParse :: "stored \<Rightarrow> jstring list" where
  "safeJsonParse SNull = []"
| "safeJsonParse (SArr a) = filterStrings a"
| "safeJsonParse (SStr jsonString) =
     (if jsonString = [] then []
      else
        (case JSON_parse jsonString of
           None \<Rightarrow> (if trim jsonString \<noteq> [] then [trim jsonString] else [])
         | Some (JArr parsed) \<Rightarrow> filterStrings parsed
         | Some (JStr parsed) \<Rightarrow> (if trim parsed \<noteq> [] then [trim parsed] else [])
         | Some _ \<Rightarrow> []))"

definition safeJsonStringify :: "jstring list \<Rightarrow> jstring option" where
  "safeJsonStringify array = (if array = [] then None else Some (JSON_stringify array))"

text \<open>The value of the column after the encoded tags are written to it.\<close>

definition columnOf :: "jstring option \<Rightarrow> stored" where
  "columnOf v = (case v of None \<Rightarrow> SNull | Some s \<Rightarrow> SStr s)"

section \<open>Numeric identifiers\<close>

text \<open>
  \<open>isNaN(Number(str))\<close> and \<open>isNaN(parseFloat(str))\<close> depend only on the shape of the text
  (ECMAScript, StringNumericLiteral): \<open>Number\<close> accepts the empty text, a signed decimal
  literal or an unsigned binary, octal or hexadecimal literal, with white space around it;
  \<open>parseFloat\<close> accepts any text that starts, after leading white space, with a decimal
  literal.
\<close>

definition isExponentPart :: "jstring \<Rightarrow> bool" where
  "isExponentPart r =
     (case r of
        [] \<Rightarrow> False
      | c # cs \<Rightarrow>
          (c = 0x65 \<or> c = 0x45) \<and>
          (let ds = (case cs of
                       [] \<Rightarrow> cs
                     | x # xs \<Rightarrow> if x = 0x2B \<or> x = 0x2D then xs else cs)
           in ds \<noteq> [] \<and> list_all isDigit ds))"

definition isStrUnsignedDecimalLiteral :: "jstring \<Rightarrow> bool" where
  "isStrUnsignedDecimalLiteral s =
     (s = js ''Infinity'' \<or>
      (let ds1 = takeWhile isDigit s; r1 = dropWhile isDigit s
       in case r1 of
            [] \<Rightarrow> ds1 \<noteq> []
          | c # cs \<Rightarrow>
              if c = 0x2E then
                (let ds2 = takeWhile isDigit cs; r2 = dropWhile isDigit cs
                 in (ds1 \<noteq> [] \<or> ds2 \<noteq> []) \<and> (r2 = [] \<or> isExponentPart r2))
              else ds1 \<noteq> [] \<and> isExponentPart r1))"

definition dropSign :: "jstring \<Rightarrow> jstring" where
  "dropSign s = (case s of [] \<Rightarrow> s | c # cs \<Rightarrow> if c = 0x2B \<or> c = 0x2D then cs else s)"

definition isStrDecimalLiteral :: "jstring \<Rightarrow> bool" where
  "isStrDecimalLiteral s = isStrUnsignedDecimalLiteral (dropSign s)"

definition isHexDigit :: "16 word \<Rightarrow> bool" where
  "isHexDigit c \<longleftrightarrow> hexval c \<noteq> None"

definition isNonDecimalIntegerLiteral :: "jstring \<Rightarrow> bool" where
  "isNonDecimalIntegerLiteral s =
     (case s of
        z # x # ds \<Rightarrow>
          z = 0x30 \<and> ds \<noteq> [] \<and>
          ((x = 0x78 \<or> x = 0x58) \<and> list_all isHexDigit ds \<or>
           (x = 0x6F \<or> x = 0x4F) \<and> list_all (\<lambda>d. 0x30 \<le> d \<and> d \<le> 0x37) ds \<or>
           (x = 0x62 \<or> x = 0x42) \<and> list_all (\<lambda>d. d = 0x30 \<or> d = 0x31) ds)
      | _ \<Rightarrow> False)"

definition Number_isNaN :: "jstring \<Rightarrow> bool" where
  "Number_isNaN str =
     (let t = trim str
      in t \<noteq> [] \<and> \<not> isStrDecimalLiteral t \<and> \<not> isNonDecimalIntegerLiteral t)"

definition startsDecimalLiteral :: "jstring \<Rightarrow> bool" where
  "startsDecimalLiteral u =
     (take 8 u = js ''Infinity'' \<or>
      (case u of
         [] \<Rightarrow> False
       | c # cs \<Rightarrow>
           isDigit c \<or> (c = 0x2E \<and> (case cs of [] \<Rightarrow> False | d # _ \<Rightarrow> isDigit d))))"

definition parseFloat_isNaN :: "jstring \<Rightarrow> bool" where
  "parseFloat_isNaN str = (\<not> startsDecimalLiteral (dropSign (trimStart str)))"

definition isNumeric :: "jstring \<Rightarrow> bool" where
  "isNumeric str = (\<not> Number_isNaN str \<and> \<not> parseFloat_isNaN str)"

text \<open>
  A JavaScript number that holds an integer, or \<open>NaN\<close>. \<open>parseInt\<close> is the platform's
  function; the operations below take it as an argument.
\<close>

datatype jsnumber = NaN | Num int

text \<open>
  ToInt32, the conversion that \<open><<\<close> and \<open>&\<close> apply to their operands and result. All
  the numbers of the hash are integers below \<open>2^53\<close>, so they are exact.
\<close>

definition toInt32 :: "int \<Rightarrow> int" where
  "toInt32 x = (let m = x mod 2 ^ 32 in if m \<ge> 2 ^ 31 then m - 2 ^ 32 else m)"

definition shiftLeft :: "int \<Rightarrow> nat \<Rightarrow> int" where
  "shiftLeft a k = toInt32 (toInt32 a * 2 ^ k)"

definition bitAnd :: "int \<Rightarrow> int \<Rightarrow> int" where
  "bitAnd a b = toInt32 (toInt32 a AND toInt32 b)"

text \<open>\<open>(a, b) => { a = ((a << 5) - a) + b.charCodeAt(0); return a & a; }\<close>\<close>

definition hashStep :: "int \<Rightarrow> 16 word \<Rightarrow> int" where
  "hashStep a b = (let a' = (shiftLeft a 5 - a) + uint b in bitAnd a' a')"

text \<open>\<open>Math.abs(str.split('').reduce(..., 0))\<close>\<close>

definition hashTicketId :: "jstring \<Rightarrow> int" where
  "hashTicketId str = \<bar>foldl hashStep 0 str\<bar>"

text \<open>The numeric id that \<open>createTicket\<close> and \<open>updateTicket\<close> derive from a trimmed identifier.\<close>

definition deriveTicketId :: "(jstring \<Rightarrow> jsnumber) \<Rightarrow> jstring \<Rightarrow> jsnumber" where
  "deriveTicketId parseInt trimmedTicketId =
     (if isNumeric trimmedTicketId then parseInt trimmedTicketId
      else Num (hashTicketId trimmedTicketId))"

section \<open>Tickets\<close>

datatype TicketStatus =
    NotStarted | ReviewedByDev | WaitingOnMod | UnderReview | InDev | InQA | WaitingOnUser
  | UnderReviewSumsub | UnderReviewProvenance | UnderReviewRain | UnderReviewCoreTeam
  | Resolved

datatype Severity = SEV1 | SEV2 | SEV3 | SEV4 | SEV5

text \<open>
  The interfaces of \<open>types/ticket.ts\<close>. Fields carry a prefix for their interface
  (\<open>t_\<close> a Ticket, \<open>f_\<close> TicketFormData, \<open>p_\<close> a Partial of it, \<open>q_\<close> SearchFilters); an
  optional field is an \<open>option\<close>.
\<close>

record Ticket =
  t_id :: jstring
  t_ticket_id :: jstring
  t_status :: TicketStatus
  t_date_created :: jstring
  t_date_resolved :: "jstring option"
  t_core_team_comments :: jstring
  t_issue_description :: jstring
  t_contact_info :: jstring
  t_product_tags :: "jstring list"
  t_category_tags :: "jstring list"
  t_severity :: Severity
  t_created_at :: jstring
  t_updated_at :: jstring

record TicketFormData =
  f_ticket_id :: "jstring option"
  f_status :: TicketStatus
  f_core_team_comments :: jstring
  f_issue_description :: jstring
  f_contact_info :: jstring
  f_product_tags :: "jstring list"
  f_category_tags :: "jstring list"
  f_severity :: Severity

record TicketUpdates =
  p_ticket_id :: "jstring option"
  p_status :: "TicketStatus option"
  p_core_team_comments :: "jstring option"
  p_issue_description :: "jstring option"
  p_contact_info :: "jstring option"
  p_product_tags :: "jstring list option"
  p_category_tags :: "jstring list option"
  p_severity :: "Severity option"

record DateRange =
  dr_start :: "jstring option"
  dr_end :: "jstring option"

record SearchFilters =
  q_search_query :: "jstring option"
  q_status :: "TicketStatus list option"
  q_severity :: "Severity list option"
  q_product_tags :: "jstring list option"
  q_category_tags :: "jstring list option"
  q_date_range :: "DateRange option"

text \<open>
  A row of the table \<open>Active Issues\<close> as the backend returns it: every column but the
  key can be \<open>null\<close>.
\<close>

record IssueRow =
  r_ticket_id :: int
  r_status :: "TicketStatus option"
  r_issue_description :: "jstring option"
  r_core_team_comment :: "jstring option"
  r_wallet_address_safe_email :: "jstring option"
  r_product :: stored
  r_category :: stored
  r_severity :: "Severity option"
  r_date_of_resolved :: "jstring option"
  r_created_at :: "jstring option"

text \<open>The object that \<open>createTicket\<close> inserts.\<close>

record InsertData =
  i_ticket_id :: jsnumber
  i_status :: TicketStatus
  i_issue_description :: jstring
  i_core_team_comment :: jstring
  i_wallet_address_safe_email :: jstring
  i_product :: "jstring option"
  i_category :: "jstring option"
  i_severity :: Severity
  i_date_of_resolved :: "jstring option"
  i_created_at :: jstring

text \<open>
  The object that \<open>updateTicket\<close> sends. A key whose value is \<open>undefined\<close> is not sent and
  its column stays as it is: such a key is \<open>None\<close>. \<open>product\<close> and \<open>category\<close> are always
  sent, as a text or as \<open>null\<close>; \<open>date_of_resolved\<close> is absent, \<open>null\<close> or a date.
\<close>

record UpdateData =
  u_status :: "TicketStatus option"
  u_issue_description :: "jstring option"
  u_core_team_comment :: "jstring option"
  u_wallet_address_safe_email :: "jstring option"
  u_product :: "jstring option"
  u_category :: "jstring option"
  u_severity :: "Severity option"
  u_ticket_id :: "jsnumber option"
  u_date_of_resolved :: "jstring option option"

text \<open>The state of the hook (\<open>useState\<close>): the list held locally, the flag and the banner.\<close>

record 'a HookState =
  records :: "'a list"
  loading :: bool
  error :: "jstring option"

text \<open>
  What a \<open>catch\<close> receives: an \<open>Error\<close> with its message, or any other value. An
  operation either returns or throws.
\<close>

datatype thrown = ErrorInstance jstring | OtherValue

datatype 'a outcome = Returned 'a | Threw thrown

text \<open>\<open>err instanceof Error ? err.message : fallback\<close>\<close>

definition errorMessage :: "thrown \<Rightarrow> jstring \<Rightarrow> jstring" where
  "errorMessage err fallback = (case err of ErrorInstance m \<Rightarrow> m | OtherValue \<Rightarrow> fallback)"

subsection \<open>Helpers\<close>

text \<open>\<open>Number.prototype.toString\<close> on an integer (below \<open>10^21\<close> in absolute value).\<close>

function digitsOf :: "nat \<Rightarrow> jstring" where
  "digitsOf n =
     (if n < 10 then [0x30 + word_of_nat n]
      else digitsOf (n div 10) @ [0x30 + word_of_nat (n mod 10)])"
  by pat_completeness auto
termination
  by (relation "measure (\<lambda>n. n)") auto

definition numberToString :: "int \<Rightarrow> jstring" where
  "numberToString i = (if i < 0 then 0x2D # digitsOf (nat (- i)) else digitsOf (nat i))"

text \<open>\<open>x || fallback\<close> on a text column: \<open>null\<close> and the empty text are falsy.\<close>

definition orElse :: "jstring option \<Rightarrow> jstring \<Rightarrow> jstring" where
  "orElse x fallback = (case x of None \<Rightarrow> fallback | Some s \<Rightarrow> if s = [] then fallback else s)"

text \<open>\<open>x || null\<close>\<close>

definition orNull :: "jstring option \<Rightarrow> jstring option" where
  "orNull x = (case x of None \<Rightarrow> None | Some s \<Rightarrow> if s = [] then None else Some s)"

text \<open>\<open>new Date().toISOString().split('T')[0]\<close>, given the ISO text of the current instant.\<close>

definition isoDate :: "jstring \<Rightarrow> jstring" where
  "isoDate now = takeWhile (\<lambda>c. c \<noteq> 0x54) now"

text \<open>\<open>Array.prototype.includes\<close> and \<open>some\<close> on arrays of strings.\<close>

definition arrayIncludes :: "'a list \<Rightarrow> 'a \<Rightarrow> bool" where
  "arrayIncludes xs x = list_ex (\<lambda>y. y = x) xs"

definition arraySome :: "'a list \<Rightarrow> ('a \<Rightarrow> bool) \<Rightarrow> bool" where
  "arraySome xs p = list_ex p xs"

text \<open>The mapping from a row to a Ticket that every read of the hook applies.\<close>

definition transformRow :: "jstring \<Rightarrow> IssueRow \<Rightarrow> Ticket" where
  "transformRow now item =
     \<lparr> t_id = numberToString (r_ticket_id item),
       t_ticket_id = numberToString (r_ticket_id item),
       t_status = (case r_status item of None \<Rightarrow> NotStarted | Some s \<Rightarrow> s),
       t_date_created = orElse (r_created_at item) now,
       t_date_resolved = orNull (r_date_of_resolved item),
       t_core_team_comments = orElse (r_core_team_comment item) [],
       t_issue_description = orElse (r_issue_description item) [],
       t_contact_info = orElse (r_wallet_address_safe_email item) [],
       t_product_tags = safeJsonParse (r_product item),
       t_category_tags = safeJsonParse (r_category item),
       t_severity = (case r_severity item of None \<Rightarrow> SEV3 | Some s \<Rightarrow> s),
       t_created_at = orElse (r_created_at item) now,
       t_updated_at = orElse (r_created_at item) now \<rparr>"

section \<open>The ticket hook (\<open>useTickets\<close>)\<close>

text \<open>
  Every operation awaits one backend call. Its result is an argument of the model:
  \<open>Inl\<close> the error of the call, \<open>Inr\<close> its data. \<open>now\<close> is the ISO text of the current
  instant. An operation returns its outcome and the state of the hook after it.
\<close>

subsection \<open>\<open>fetchTickets\<close>\<close>

definition fetchTickets ::
  "jstring \<Rightarrow> thrown + IssueRow list \<Rightarrow> Ticket HookState \<Rightarrow> unit outcome \<times> Ticket HookState" where
  "fetchTickets now response st =
     (let st1 = st\<lparr>loading := True, error := None\<rparr>
      in case response of
           Inr data \<Rightarrow>
             (Returned (), st1\<lparr>records := map (transformRow now) data, loading := False\<rparr>)
         | Inl err \<Rightarrow>
             (Returned (),
              st1\<lparr>error := Some (errorMessage err (js ''Failed to fetch tickets'')),
                  loading := False\<rparr>))"

subsection \<open>\<open>createTicket\<close>\<close>

text \<open>The part before the backend call: the validation and the object to insert.\<close>

definition createTicketData ::
  "(jstring \<Rightarrow> jsnumber) \<Rightarrow> jstring \<Rightarrow> TicketFormData \<Rightarrow> thrown + InsertData" where
  "createTicketData parseInt now data =
     (case f_ticket_id data of
        None \<Rightarrow> Inl (ErrorInstance (js ''Ticket ID is required and cannot be empty''))
      | Some tid \<Rightarrow>
          if tid = [] \<or> trim tid = [] then
            Inl (ErrorInstance (js ''Ticket ID is required and cannot be empty''))
          else
            Inr \<lparr> i_ticket_id = deriveTicketId parseInt (trim tid),
                  i_status = f_status data,
                  i_issue_description = f_issue_description data,
                  i_core_team_comment = f_core_team_comments data,
                  i_wallet_address_safe_email = f_contact_info data,
                  i_product = safeJsonStringify (f_product_tags data),
                  i_category = safeJsonStringify (f_category_tags data),
                  i_severity = f_severity data,
                  i_date_of_resolved =
                    (if f_status data = Resolved then Some (isoDate now) else None),
                  i_created_at = now \<rparr>)"

definition createTicket ::
  "(jstring \<Rightarrow> jsnumber) \<Rightarrow> jstring \<Rightarrow> TicketFormData \<Rightarrow> thrown + IssueRow \<Rightarrow>
   Ticket HookState \<Rightarrow> Ticket outcome \<times> Ticket HookState" where
  "createTicket parseInt now data response st =
     (let st1 = st\<lparr>error := None\<rparr>;
          failed = (\<lambda>err. (Threw err,
                      st1\<lparr>error := Some (errorMessage err (js ''Failed to create ticket''))\<rparr>))
      in case createTicketData parseInt now data of
           Inl err \<Rightarrow> failed err
         | Inr payload \<Rightarrow>
             (case response of
                Inl err \<Rightarrow> failed err
              | Inr newTicket \<Rightarrow>
                  (let transformedTicket = transformRow now newTicket
                   in (Returned transformedTicket,
                       st1\<lparr>records := transformedTicket # records st1\<rparr>))))"

subsection \<open>\<open>updateTicket\<close>\<close>

definition updateTicketData ::
  "(jstring \<Rightarrow> jsnumber) \<Rightarrow> jstring \<Rightarrow> TicketUpdates \<Rightarrow> UpdateData" where
  "updateTicketData parseInt now updates =
     (let updateData =
            \<lparr> u_status = p_status updates,
              u_issue_description = p_issue_description updates,
              u_core_team_comment = p_core_team_comments updates,
              u_wallet_address_safe_email = p_contact_info updates,
              u_product = (case p_product_tags updates of
                             Some tags \<Rightarrow> safeJsonStringify tags
                           | None \<Rightarrow> None),
              u_category = (case p_category_tags updates of
                              Some tags \<Rightarrow> safeJsonStringify tags
                            | None \<Rightarrow> None),
              u_severity = p_severity updates,
              u_ticket_id = None,
              u_date_of_resolved = None \<rparr>;
          updateData1 =
            (case p_ticket_id updates of
               None \<Rightarrow> updateData
             | Some tid \<Rightarrow>
                 if tid \<noteq> [] \<and> trim tid \<noteq> [] then
                   updateData\<lparr>u_ticket_id := Some (deriveTicketId parseInt (trim tid))\<rparr>
                 else updateData)
      in if p_status updates = Some Resolved then
           updateData1\<lparr>u_date_of_resolved := Some (Some (isoDate now))\<rparr>
         else if p_status updates \<noteq> None \<and> p_status updates \<noteq> Some Resolved then
           updateData1\<lparr>u_date_of_resolved := Some None\<rparr>
         else updateData1)"

text \<open>
  The merge of the returned row into the local ticket (\<open>data.status || ticket.status\<close>
  and so on).
\<close>

definition mergeRow :: "IssueRow \<Rightarrow> Ticket \<Rightarrow> Ticket" where
  "mergeRow data ticket =
     ticket\<lparr> t_id := numberToString (r_ticket_id data),
             t_ticket_id := numberToString (r_ticket_id data),
             t_status := (case r_status data of None \<Rightarrow> t_status ticket | Some s \<Rightarrow> s),
             t_issue_description :=
               orElse (r_issue_description data) (t_issue_description ticket),
             t_core_team_comments :=
               orElse (r_core_team_comment data) (t_core_team_comments ticket),
             t_contact_info := orElse (r_wallet_address_safe_email data) (t_contact_info ticket),
             t_product_tags := safeJsonParse (r_product data),
             t_category_tags := safeJsonParse (r_category data),
             t_severity := (case r_severity data of None \<Rightarrow> t_severity ticket | Some s \<Rightarrow> s),
             t_date_resolved := orNull (r_date_of_resolved data) \<rparr>"

definition updateTicket ::
  "jstring \<Rightarrow> TicketUpdates \<Rightarrow> thrown + IssueRow \<Rightarrow> Ticket HookState \<Rightarrow>
   unit outcome \<times> Ticket HookState" where
  "updateTicket id' updates response st =
     (let st1 = st\<lparr>error := None\<rparr>
      in case response of
           Inl err \<Rightarrow>
             (Threw err, st1\<lparr>error := Some (errorMessage err (js ''Failed to update ticket''))\<rparr>)
         | Inr data \<Rightarrow>
             (Returned (),
              st1\<lparr>records := map (\<lambda>ticket. if t_id ticket = id' then mergeRow data ticket
                                           else ticket) (records st1)\<rparr>))"

text \<open>
  What the update does to the stored row (SQL \<open>UPDATE ... SET\<close>): a key that is sent
  sets its column, the other columns stay. The key column is set when the id is a number.
\<close>

definition applyUpdate :: "UpdateData \<Rightarrow> IssueRow \<Rightarrow> IssueRow" where
  "applyUpdate u row =
     row\<lparr> r_status := (case u_status u of None \<Rightarrow> r_status row | Some s \<Rightarrow> Some s),
          r_issue_description :=
            (case u_issue_description u of None \<Rightarrow> r_issue_description row | Some s \<Rightarrow> Some s),
          r_core_team_comment :=
            (case u_core_team_comment u of None \<Rightarrow> r_core_team_comment row | Some s \<Rightarrow> Some s),
          r_wallet_address_safe_email :=
            (case u_wallet_address_safe_email u of
               None \<Rightarrow> r_wallet_address_safe_email row
             | Some s \<Rightarrow> Some s),
          r_product := columnOf (u_product u),
          r_category := columnOf (u_category u),
          r_severity := (case u_severity u of None \<Rightarrow> r_severity row | Some s \<Rightarrow> Some s),
          r_ticket_id := (case u_ticket_id u of Some (Num n) \<Rightarrow> n | _ \<Rightarrow> r_ticket_id row),
          r_date_of_resolved :=
            (case u_date_of_resolved u of None \<Rightarrow> r_date_of_resolved row | Some d \<Rightarrow> d) \<rparr>"

subsection \<open>\<open>deleteTicket\<close>, \<open>bulkDeleteTickets\<close>, \<open>bulkUpdateTicketStatus\<close>\<close>

definition deleteTicket ::
  "jstring \<Rightarrow> thrown + unit \<Rightarrow> Ticket HookState \<Rightarrow> unit outcome \<times> Ticket HookState" where
  "deleteTicket id' response st =
     (let st1 = st\<lparr>error := None\<rparr>
      in case response of
           Inl err \<Rightarrow>
             (Threw err, st1\<lparr>error := Some (errorMessage err (js ''Failed to delete ticket''))\<rparr>)
         | Inr _ \<Rightarrow>
             (Returned (), st1\<lparr>records := filter (\<lambda>ticket. t_id ticket \<noteq> id') (records st1)\<rparr>))"

definition bulkDeleteTickets ::
  "jstring list \<Rightarrow> thrown + unit \<Rightarrow> Ticket HookState \<Rightarrow> unit outcome \<times> Ticket HookState" where
  "bulkDeleteTickets ids response st =
     (let st1 = st\<lparr>error := None\<rparr>
      in case response of
           Inl err \<Rightarrow>
             (Threw err, st1\<lparr>error := Some (errorMessage err (js ''Failed to delete tickets''))\<rparr>)
         | Inr _ \<Rightarrow>
             (Returned (),
              st1\<lparr>records := filter (\<lambda>ticket. \<not> arrayIncludes ids (t_id ticket)) (records st1)\<rparr>))"

text \<open>The object that \<open>bulkUpdateTicketStatus\<close> sends: the status and the resolution date.\<close>

definition bulkUpdateData :: "jstring \<Rightarrow> TicketStatus \<Rightarrow> TicketStatus \<times> jstring option" where
  "bulkUpdateData now status = (status, if status = Resolved then Some (isoDate now) else None)"

definition bulkUpdateTicketStatus ::
  "jstring \<Rightarrow> jstring list \<Rightarrow> TicketStatus \<Rightarrow> thrown + unit \<Rightarrow> Ticket HookState \<Rightarrow>
   unit outcome \<times> Ticket HookState" where
  "bulkUpdateTicketStatus now ids status response st =
     (let st1 = st\<lparr>error := None\<rparr>
      in case response of
           Inl err \<Rightarrow>
             (Threw err,
              st1\<lparr>error := Some (errorMessage err (js ''Failed to update ticket status''))\<rparr>)
         | Inr _ \<Rightarrow>
             (Returned (),
              st1\<lparr>records :=
                    map (\<lambda>ticket.
                           if arrayIncludes ids (t_id ticket) then
                             ticket\<lparr> t_status := status,
                                     t_date_resolved :=
                                       (if status = Resolved then Some (isoDate now) else None) \<rparr>
                           else ticket) (records st1)\<rparr>))"

subsection \<open>\<open>getUniqueTagsFromSupabase\<close>\<close>

text \<open>
  The call returns the values of one tag column. The tags are collected in a \<open>Set\<close>, in
  the order of their first occurrence. The last step, \<open>sort()\<close>, orders the texts by code
  units; \<open>sortTexts\<close> is that function.
\<close>

definition collectTags :: "stored list \<Rightarrow> jstring list" where
  "collectTags data =
     rev (remdups (rev (concat (map (\<lambda>item.
        map trim (filter (\<lambda>tag. tag \<noteq> [] \<and> trim tag \<noteq> []) (safeJsonParse item))) data))))"

definition getUniqueTagsFromSupabase ::
  "(jstring list \<Rightarrow> jstring list) \<Rightarrow> thrown + stored list \<Rightarrow> Ticket HookState \<Rightarrow>
   jstring list outcome \<times> Ticket HookState" where
  "getUniqueTagsFromSupabase sortTexts response st =
     (case response of
        Inr data \<Rightarrow> (Returned (sortTexts (collectTags data)), st)
      | Inl err \<Rightarrow> (Returned [], st))"

subsection \<open>\<open>searchTickets\<close>\<close>


text \<open>\<open>filters.xs?.length\<close> and \<open>filters.s\<close> as conditions.\<close>

definition hasLength :: "'a list option \<Rightarrow> bool" where
  "hasLength xs = (case xs of None \<Rightarrow> False | Some ys \<Rightarrow> ys \<noteq> [])"

definition truthy :: "jstring option \<Rightarrow> bool" where
  "truthy s = (case s of None \<Rightarrow> False | Some t \<Rightarrow> t \<noteq> [])"




text \<open>\<open>filters.tags!.some(tag => ticketTags.includes(tag))\<close>\<close>

definition anyTag :: "jstring list option \<Rightarrow> jstring list \<Rightarrow> bool" where
  "anyTag selected ticketTags = arraySome (the selected) (\<lambda>tag. arrayIncludes ticketTags tag)"

definition filterByTags :: "SearchFilters \<Rightarrow> Ticket list \<Rightarrow> Ticket list" where
  "filterByTags filters transformedTickets =
     (let byProduct =
            (if hasLength (q_product_tags filters) then
               filter (\<lambda>ticket. anyTag (q_product_tags filters) (t_product_tags ticket))
                 transformedTickets
             else transformedTickets)
      in if hasLength (q_category_tags filters) then
           filter (\<lambda>ticket. anyTag (q_category_tags filters) (t_category_tags ticket)) byProduct
         else byProduct)"

definition searchTickets ::
  "jstring \<Rightarrow> SearchFilters \<Rightarrow> thrown + IssueRow list \<Rightarrow> Ticket HookState \<Rightarrow>
   unit outcome \<times> Ticket HookState" where
  "searchTickets now filters response st =
     (let st1 = st\<lparr>loading := True, error := None\<rparr>
      in case response of
           Inr data \<Rightarrow>
             (Returned (),
              st1\<lparr>records := filterByTags filters (map (transformRow now) data),
                  loading := False\<rparr>)
         | Inl err \<Rightarrow>
             (Returned (),
              st1\<lparr>error := Some (errorMessage err (js ''Failed to search tickets'')),
                  loading := False\<rparr>))"





section \<open>The Notion adapter: \<open>ticketService.searchTickets\<close>\<close>












subsection \<open>The claimed criterion\<close>


section \<open>Feedback\<close>

datatype Platform = Intercom | Discord | X | ZoomAnalystCall

text \<open>
  The interfaces of \<open>types/feedback\<close>, with the prefixes \<open>fb_\<close> (Feedback), \<open>ff_\<close>
  (FeedbackFormData), \<open>fp_\<close> (a Partial of it) and \<open>fq_\<close> (FeedbackSearchFilters).
\<close>

record Feedback =
  fb_id :: jstring
  fb_ticket_id :: "int option"
  fb_created_at :: jstring
  fb_platform :: Platform
  fb_product :: jstring
  fb_description :: jstring
  fb_core_team_acknowledgement :: "bool option"
  fb_shipped :: "bool option"
  fb_shipping_date :: "jstring option"

record FeedbackFormData =
  ff_ticket_id :: "jstring option"
  ff_created_at :: jstring
  ff_platform :: Platform
  ff_product :: "jstring option"
  ff_description :: "jstring option"
  ff_core_team_acknowledgement :: "bool option"
  ff_shipped :: "bool option"
  ff_shipping_date :: "jstring option"

record FeedbackUpdates =
  fp_ticket_id :: "jstring option"
  fp_created_at :: "jstring option"
  fp_platform :: "Platform option"
  fp_product :: "jstring option"
  fp_description :: "jstring option"
  fp_core_team_acknowledgement :: "bool option"
  fp_shipped :: "bool option"
  fp_shipping_date :: "jstring option"

record FeedbackSearchFilters =
  fq_search_query :: "jstring option"
  fq_platform :: "Platform list option"
  fq_product :: "jstring list option"
  fq_core_team_acknowledgement :: "bool option"
  fq_shipped :: "bool option"
  fq_date_range :: "DateRange option"

text \<open>A row of the table \<open>feedback_requests\<close>.\<close>

record FeedbackRow =
  fr_id :: int
  fr_ticket_id :: "int option"
  fr_platform :: "Platform option"
  fr_product :: "jstring option"
  fr_description :: "jstring option"
  fr_core_team_acknowledgement :: "bool option"
  fr_shipped :: "bool option"
  fr_shipping_date :: "jstring option"
  fr_created_at :: "jstring option"

text \<open>
  The object that \<open>createFeedback\<close> inserts. \<open>ticket_id\<close> is \<open>null\<close> or the number that
  \<open>parseInt\<close> reads; an \<open>undefined\<close> flag leaves its column to the table's default.
\<close>

record FeedbackInsert =
  fi_ticket_id :: "jsnumber option"
  fi_platform :: Platform
  fi_product :: "jstring option"
  fi_description :: "jstring option"
  fi_core_team_acknowledgement :: "bool option"
  fi_shipped :: "bool option"
  fi_shipping_date :: "jstring option"
  fi_created_at :: jstring

text \<open>
  The object that \<open>updateFeedback\<close> sends: \<open>ticket_id\<close>, \<open>product\<close>, \<open>description\<close> and
  \<open>shipping_date\<close> are always sent (\<open>None\<close> is \<open>null\<close>); \<open>platform\<close> and the two flags are
  sent when they are defined.
\<close>

record FeedbackUpdate =
  fu_ticket_id :: "jsnumber option"
  fu_platform :: "Platform option"
  fu_product :: "jstring option"
  fu_description :: "jstring option"
  fu_core_team_acknowledgement :: "bool option"
  fu_shipped :: "bool option"
  fu_shipping_date :: "jstring option"

section \<open>The feedback hook (\<open>useFeedback\<close>)\<close>

definition transformFeedback :: "jstring \<Rightarrow> FeedbackRow \<Rightarrow> Feedback" where
  "transformFeedback now item =
     \<lparr> fb_id = numberToString (fr_id item),
       fb_ticket_id = (case fr_ticket_id item of
                         None \<Rightarrow> None
                       | Some n \<Rightarrow> if n = 0 then None else Some n),
       fb_created_at = orElse (fr_created_at item) now,
       fb_platform = (case fr_platform item of None \<Rightarrow> Intercom | Some p \<Rightarrow> p),
       fb_product = orElse (fr_product item) [],
       fb_description = orElse (fr_description item) [],
       fb_core_team_acknowledgement = fr_core_team_acknowledgement item,
       fb_shipped = fr_shipped item,
       fb_shipping_date = orNull (fr_shipping_date item) \<rparr>"

definition fetchFeedback ::
  "jstring \<Rightarrow> thrown + FeedbackRow list \<Rightarrow> Feedback HookState \<Rightarrow>
   unit outcome \<times> Feedback HookState" where
  "fetchFeedback now response st =
     (let st1 = st\<lparr>loading := True, error := None\<rparr>
      in case response of
           Inr data \<Rightarrow>
             (Returned (), st1\<lparr>records := map (transformFeedback now) data, loading := False\<rparr>)
         | Inl err \<Rightarrow>
             (Returned (),
              st1\<lparr>error := Some (errorMessage err (js ''Failed to fetch feedback'')),
                  loading := False\<rparr>))"

subsection \<open>\<open>createFeedback\<close>\<close>

definition createFeedbackData ::
  "(jstring \<Rightarrow> jsnumber) \<Rightarrow> jstring \<Rightarrow> FeedbackFormData \<Rightarrow> FeedbackInsert" where
  "createFeedbackData parseInt now data =
     \<lparr> fi_ticket_id = (if truthy (ff_ticket_id data) then Some (parseInt (the (ff_ticket_id data)))
                       else None),
       fi_platform = ff_platform data,
       fi_product = orNull (ff_product data),
       fi_description = orNull (ff_description data),
       fi_core_team_acknowledgement = ff_core_team_acknowledgement data,
       fi_shipped = ff_shipped data,
       fi_shipping_date = (if ff_shipped data = Some True \<and> truthy (ff_shipping_date data)
                           then ff_shipping_date data else None),
       fi_created_at = orElse (Some (ff_created_at data)) now \<rparr>"

definition createFeedback ::
  "jstring \<Rightarrow> thrown + FeedbackRow \<Rightarrow> Feedback HookState \<Rightarrow>
   Feedback outcome \<times> Feedback HookState" where
  "createFeedback now response st =
     (let st1 = st\<lparr>error := None\<rparr>
      in case response of
           Inl err \<Rightarrow>
             (Threw err,
              st1\<lparr>error := Some (errorMessage err (js ''Failed to create feedback''))\<rparr>)
         | Inr newFeedback \<Rightarrow>
             (let transformedFeedback = transformFeedback now newFeedback
              in (Returned transformedFeedback,
                  st1\<lparr>records := transformedFeedback # records st1\<rparr>)))"

subsection \<open>\<open>updateFeedback\<close>\<close>

definition updateFeedbackData ::
  "(jstring \<Rightarrow> jsnumber) \<Rightarrow> jstring \<Rightarrow> FeedbackUpdates \<Rightarrow> FeedbackUpdate" where
  "updateFeedbackData parseInt now updates =
     (let updateData =
            \<lparr> fu_ticket_id = (if truthy (fp_ticket_id updates)
                               then Some (parseInt (the (fp_ticket_id updates))) else None),
              fu_platform = fp_platform updates,
              fu_product = orNull (fp_product updates),
              fu_description = orNull (fp_description updates),
              fu_core_team_acknowledgement = fp_core_team_acknowledgement updates,
              fu_shipped = fp_shipped updates,
              fu_shipping_date =
                (if fp_shipped updates = Some True \<and> truthy (fp_shipping_date updates)
                 then fp_shipping_date updates else None) \<rparr>
      in if fp_shipped updates = Some True \<and> \<not> truthy (fp_shipping_date updates) then
           updateData\<lparr>fu_shipping_date := Some (isoDate now)\<rparr>
         else updateData)"

definition mergeFeedback :: "FeedbackRow \<Rightarrow> Feedback \<Rightarrow> Feedback" where
  "mergeFeedback data item =
     item\<lparr> fb_ticket_id := (case fr_ticket_id data of
                               None \<Rightarrow> None
                             | Some n \<Rightarrow> if n = 0 then None else Some n),
           fb_platform := (case fr_platform data of None \<Rightarrow> fb_platform item | Some p \<Rightarrow> p),
           fb_product := orElse (fr_product data) [],
           fb_description := orElse (fr_description data) [],
           fb_core_team_acknowledgement := fr_core_team_acknowledgement data,
           fb_shipped := fr_shipped data,
           fb_shipping_date := orNull (fr_shipping_date data) \<rparr>"

definition updateFeedback ::
  "jstring \<Rightarrow> thrown + FeedbackRow \<Rightarrow> Feedback HookState \<Rightarrow>
   unit outcome \<times> Feedback HookState" where
  "updateFeedback id' response st =
     (let st1 = st\<lparr>error := None\<rparr>
      in case response of
           Inl err \<Rightarrow>
             (Threw err,
              st1\<lparr>error := Some (errorMessage err (js ''Failed to update feedback''))\<rparr>)
         | Inr data \<Rightarrow>
             (Returned (),
              st1\<lparr>records := map (\<lambda>item. if fb_id item = id' then mergeFeedback data item
                                         else item) (records st1)\<rparr>))"

subsection \<open>\<open>deleteFeedback\<close>, \<open>bulkDeleteFeedback\<close>, \<open>searchFeedback\<close>\<close>

definition deleteFeedback ::
  "jstring \<Rightarrow> thrown + unit \<Rightarrow> Feedback HookState \<Rightarrow> unit outcome \<times> Feedback HookState" where
  "deleteFeedback id' response st =
     (let st1 = st\<lparr>error := None\<rparr>
      in case response of
           Inl err \<Rightarrow>
             (Threw err,
              st1\<lparr>error := Some (errorMessage err (js ''Failed to delete feedback''))\<rparr>)
         | Inr _ \<Rightarrow>
             (Returned (), st1\<lparr>records := filter (\<lambda>item. fb_id item \<noteq> id') (records st1)\<rparr>))"

definition bulkDeleteFeedback ::
  "jstring list \<Rightarrow> thrown + unit \<Rightarrow> Feedback HookState \<Rightarrow>
   unit outcome \<times> Feedback HookState" where
  "bulkDeleteFeedback ids response st =
     (let st1 = st\<lparr>error := None\<rparr>
      in case response of
           Inl err \<Rightarrow>
             (Threw err,
              st1\<lparr>error := Some (errorMessage err (js ''Failed to delete feedback''))\<rparr>)
         | Inr _ \<Rightarrow>
             (Returned (),
              st1\<lparr>records := filter (\<lambda>item. \<not> arrayIncludes ids (fb_id item)) (records st1)\<rparr>))"

definition searchFeedback ::
  "jstring \<Rightarrow> FeedbackSearchFilters \<Rightarrow> thrown + FeedbackRow list \<Rightarrow> Feedback HookState \<Rightarrow>
   unit outcome \<times> Feedback HookState" where
  "searchFeedback now filters response st =
     (let st1 = st\<lparr>loading := True, error := None\<rparr>
      in case response of
           Inr data \<Rightarrow>
             (let transformedFeedback = map (transformFeedback now) data;
                  byProduct =
                    (if hasLength (fq_product filters) then
                       filter (\<lambda>item. arraySome (the (fq_product filters))
                                        (\<lambda>product. fb_product item = product))
                         transformedFeedback
                     else transformedFeedback)
              in (Returned (), st1\<lparr>records := byProduct, loading := False\<rparr>))
         | Inl err \<Rightarrow>
             (Returned (),
              st1\<lparr>error := Some (errorMessage err (js ''Failed to search feedback'')),
                  loading := False\<rparr>))"

subsection \<open>The form's effect on \<open>formData.shipped\<close> (\<open>FeedbackForm\<close>)\<close>

definition shippedEffect :: "jstring \<Rightarrow> FeedbackFormData \<Rightarrow> FeedbackFormData" where
  "shippedEffect now formData =
     (if ff_shipped formData = Some True \<and> \<not> truthy (ff_shipping_date formData) then
        formData\<lparr>ff_shipping_date := Some (isoDate now)\<rparr>
      else if ff_shipped formData = Some False then
        formData\<lparr>ff_shipping_date := Some []\<rparr>
      else formData)"

section \<open>The criteria that the two searches apply\<close>



section \<open>The hash as the specification words it\<close>

text \<open>
  The fold \<open>h := ((h << 5) - h) + charCode\<close> on 32-bit words, from 0: the arithmetic wraps
  by itself, and \<open>sint\<close> reads the result as a signed number.
\<close>

definition wordStep :: "32 word \<Rightarrow> 16 word \<Rightarrow> 32 word" where
  "wordStep h c = (push_bit 5 h - h) + ucast c"

definition wrappedHash :: "jstring \<Rightarrow> 32 word" where
  "wrappedHash s = foldl wordStep 0 s"

section \<open>Example values\<close>

definition now0 :: jstring where
  "now0 = js ''2025-03-04T10:20:30.000Z''"

definition form0 :: TicketFormData where
  "form0 = \<lparr> f_ticket_id = Some (js '' Aa ''), f_status = Resolved,
             f_core_team_comments = js ''seen'', f_issue_description = js ''Card declined'',
             f_contact_info = js ''a@b.c'', f_product_tags = [js ''Cash''],
             f_category_tags = [], f_severity = SEV2 \<rparr>"

text \<open>An update that supplies the status only.\<close>

definition statusOnly :: TicketUpdates where
  "statusOnly = \<lparr> p_ticket_id = None, p_status = Some InDev, p_core_team_comments = None,
                  p_issue_description = None, p_contact_info = None, p_product_tags = None,
                  p_category_tags = None, p_severity = None \<rparr>"

text \<open>An update that supplies every field, as the form does.\<close>

definition fullUpdate :: TicketUpdates where
  "fullUpdate = \<lparr> p_ticket_id = Some (js ''BB''), p_status = Some Resolved,
                  p_core_team_comments = Some (js ''fixed''),
                  p_issue_description = Some (js ''Card declined''),
                  p_contact_info = Some (js ''a@b.c''), p_product_tags = Some [js ''Cash''],
                  p_category_tags = Some [], p_severity = Some SEV1 \<rparr>"

definition row0 :: IssueRow where
  "row0 = \<lparr> r_ticket_id = 41, r_status = Some Resolved,
            r_issue_description = Some (js ''Card declined''), r_core_team_comment = None,
            r_wallet_address_safe_email = Some (js ''a@b.c''),
            r_product = SStr (js ''[\"Cash\"]''), r_category = SNull,
            r_severity = Some SEV2, r_date_of_resolved = Some (js ''2025-03-01''),
            r_created_at = Some (js ''2025-02-27T08:00:00.000Z'') \<rparr>"

definition ticket0 :: Ticket where
  "ticket0 = transformRow now0 row0"

definition ticket1 :: Ticket where
  "ticket1 = transformRow now0 (row0\<lparr>r_ticket_id := 42, r_status := Some InQA\<rparr>)"

definition state0 :: "Ticket HookState" where
  "state0 = \<lparr> records = [ticket0, ticket1], loading = False, error = None \<rparr>"

definition feedbackForm0 :: FeedbackFormData where
  "feedbackForm0 = \<lparr> ff_ticket_id = Some (js ''41''), ff_created_at = js ''2025-03-01'',
                     ff_platform = Discord, ff_product = Some (js ''Cash''),
                     ff_description = Some (js ''Add limits''),
                     ff_core_team_acknowledgement = None, ff_shipped = Some True,
                     ff_shipping_date = None \<rparr>"

definition feedbackUpdate0 :: FeedbackUpdates where
  "feedbackUpdate0 = \<lparr> fp_ticket_id = Some (js ''41''), fp_created_at = Some (js ''2025-03-01''),
                       fp_platform = Some Discord, fp_product = Some (js ''Cash''),
                       fp_description = Some (js ''Add limits''),
                       fp_core_team_acknowledgement = None, fp_shipped = Some True,
                       fp_shipping_date = None \<rparr>"

definition feedbackState0 :: "Feedback HookState" where
  "feedbackState0 =
     \<lparr> records = [\<lparr> fb_id = js ''7'', fb_ticket_id = Some 41, fb_created_at = js ''2025-03-01'',
                     fb_platform = Discord, fb_product = js ''Cash'',
                     fb_description = js ''Add limits'', fb_core_team_acknowledgement = None,
                     fb_shipped = Some False, fb_shipping_date = None \<rparr>],
       loading = False, error = None \<rparr>"







section \<open>The parser's bound\<close>

text \<open>
  Every successful parse consumes a part of the text, and needs no more nested calls than
  twice the number of code units it consumes.
\<close>

lemma skipWs_Cons: "skipWs s = c # cs \<Longrightarrow> Suc (length cs) \<le> length s"
  using length_dropWhile_le [of isJsonWs s] by (simp add: skipWs_def)

lemma consChar_Some: "consChar c x = Some (str, r) \<Longrightarrow> \<exists>t. x = Some (t, r) \<and> str = c # t"
  by (auto simp: consChar_def split: option.splits)

lemma parseChars_consumes: "parseChars s = Some (str, r) \<Longrightarrow> length r < length s"
proof (induction "length s" arbitrary: s str rule: less_induct)
  case less
  note p = less.prems
  have IH: "length r < length ys" if "length ys < length s" "parseChars ys = Some (t, r)" for ys t
    using less.hyps that by blast
  show ?case
  proof (cases s)
    case Nil
    with p show ?thesis by simp
  next
    case (Cons c cs)
    consider (quote) "c = 0x22" | (esc) "c = 0x5C" | (plain) "c \<noteq> 0x22" "c \<noteq> 0x5C"
      by blast
    then show ?thesis
    proof cases
      case quote
      with p Cons show ?thesis by simp
    next
      case plain
      with p Cons have "consChar c (parseChars cs) = Some (str, r)"
        by (simp split: if_split_asm)
      then obtain t where "parseChars cs = Some (t, r)" by (auto dest: consChar_Some)
      with IH [of cs t] Cons show ?thesis by simp
    next
      case esc
      from p Cons esc obtain e es where cs: "cs = e # es" by (cases cs) auto
      show ?thesis
      proof (cases "e = 0x75")
        case True
        from p Cons esc cs True obtain a b c' d rest w
          where es: "es = a # b # c' # d # rest"
            and "consChar w (parseChars rest) = Some (str, r)"
          by (simp split: list.split_asm option.split_asm)
        then obtain t where "parseChars rest = Some (t, r)" by (auto dest: consChar_Some)
        with IH [of rest t] Cons cs es show ?thesis by simp
      next
        case False
        from p Cons esc cs False obtain w
          where "consChar w (parseChars es) = Some (str, r)"
          by (simp split: option.split_asm)
        then obtain t where "parseChars es = Some (t, r)" by (auto dest: consChar_Some)
        with IH [of es t] Cons cs show ?thesis by simp
      qed
    qed
  qed
qed

lemma parseFrac_consumes: "parseFrac s = Some (l, r) \<Longrightarrow> length r \<le> length s"
  using length_dropWhile_le [of isDigit "tl s"]
  by (auto simp: parseFrac_def split: list.split_asm if_split_asm)

lemma parseExp_consumes: "parseExp s = Some (l, r) \<Longrightarrow> length r \<le> length s"
  using length_dropWhile_le [of isDigit "tl s"] length_dropWhile_le [of isDigit "tl (tl s)"]
  by (auto simp: parseExp_def Let_def split: list.split_asm if_split_asm)

lemma parseNumber_consumes: "parseNumber s = Some (l, r) \<Longrightarrow> length r < length s"
proof -
  assume a: "parseNumber s = Some (l, r)"
  define r0 where "r0 = (case s of [] \<Rightarrow> s | c # cs \<Rightarrow> if c = 0x2D then cs else s)"
  have r0: "length r0 \<le> length s" by (auto simp: r0_def split: list.splits)
  from a obtain d ds where d: "r0 = d # ds" "isDigit d"
    by (auto simp: parseNumber_def r0_def Let_def split: list.split_asm if_split_asm prod.split_asm)
  define r1 where "r1 = (if d = 0x30 then ds else dropWhile isDigit r0)"
  have "dropWhile isDigit r0 = dropWhile isDigit ds" using d by simp
  then have r1: "length r1 < length r0"
    using d length_dropWhile_le [of isDigit ds] by (simp add: r1_def)
  from a d obtain fp r2 ep where "parseFrac r1 = Some (fp, r2)" "parseExp r2 = Some (ep, r)"
    by (auto simp: parseNumber_def r0_def r1_def Let_def
        split: list.split_asm if_split_asm prod.split_asm option.split_asm)
  then have "length r \<le> length r1" using parseFrac_consumes parseExp_consumes
    by (meson le_trans)
  with r0 r1 show ?thesis by simp
qed

lemma parsePrimitive_consumes: "parsePrimitive s = Some (v, r) \<Longrightarrow> length r < length s"
proof -
  assume a: "parsePrimitive s = Some (v, r)"
  have l: "length (js ''null'') = 4" "length (js ''true'') = 4" "length (js ''false'') = 5"
    by (simp_all add: js_def)
  have t: "take k s = t \<Longrightarrow> length t = k \<Longrightarrow> 0 < k \<Longrightarrow> length (drop k s) < length s"
    for k t by (cases s) auto
  from a show ?thesis
    unfolding parsePrimitive_def
    by (auto split: if_split_asm option.split_asm dest: parseNumber_consumes t [OF _ l(1)]
        t [OF _ l(2)] t [OF _ l(3)])
qed

lemma parseValue_inv:
  assumes "parseValue (Suc n) s = Some (v, r)"
  shows "\<exists>c cs. skipWs s = c # cs \<and>
     (c = 0x22 \<and> (\<exists>str. parseChars cs = Some (str, r) \<and> v = JStr str) \<or>
      c = 0x5B \<and> (\<exists>d ds. skipWs cs = d # ds \<and>
         (d = 0x5D \<and> r = ds \<and> v = JArr [] \<or>
          d \<noteq> 0x5D \<and> (\<exists>vs. parseElements n cs = Some (vs, r) \<and> v = JArr vs))) \<or>
      c = 0x7B \<and> (\<exists>d ds. skipWs cs = d # ds \<and>
         (d = 0x7D \<and> r = ds \<and> v = JObj [] \<or>
          d \<noteq> 0x7D \<and> (\<exists>ms. parseMembers n cs = Some (ms, r) \<and> v = JObj ms))) \<or>
      c \<noteq> 0x22 \<and> c \<noteq> 0x5B \<and> c \<noteq> 0x7B \<and> parsePrimitive (c # cs) = Some (v, r))"
proof -
  from assms obtain c cs where sk: "skipWs s = c # cs"
    by (cases "skipWs s") simp_all
  consider (str) "c = 0x22" | (arr) "c = 0x5B" | (obj) "c = 0x7B"
    | (prim) "c \<noteq> 0x22" "c \<noteq> 0x5B" "c \<noteq> 0x7B" by blast
  then show ?thesis
  proof cases
    case str
    with assms sk show ?thesis by (auto split: option.split_asm)
  next
    case arr
    with assms sk obtain d ds where d: "skipWs cs = d # ds"
      by (cases "skipWs cs") simp_all
    with assms sk arr show ?thesis
      by (cases "d = 0x5D") (auto split: option.split_asm)
  next
    case obj
    with assms sk obtain d ds where d: "skipWs cs = d # ds"
      by (cases "skipWs cs") simp_all
    with assms sk obj show ?thesis
      by (cases "d = 0x7D") (auto split: option.split_asm)
  next
    case prim
    with assms sk show ?thesis by simp
  qed
qed

lemma parseElements_inv:
  assumes "parseElements (Suc n) s = Some (vs, r)"
  shows "\<exists>v r1 c cs. parseValue n s = Some (v, r1) \<and> skipWs r1 = c # cs \<and>
     (c = 0x2C \<and> (\<exists>vs'. parseElements n cs = Some (vs', r) \<and> vs = v # vs') \<or>
      c = 0x5D \<and> r = cs \<and> vs = [v])"
proof -
  from assms obtain v r1 where v: "parseValue n s = Some (v, r1)"
    by (cases "parseValue n s") (auto simp del: parseValue.simps)
  with assms obtain c cs where sk: "skipWs r1 = c # cs"
    by (cases "skipWs r1") (simp_all del: parseValue.simps)
  from assms [unfolded parseElements.simps(2)] v sk show ?thesis
    by (cases "c = 0x2C")
      (auto split: option.split_asm if_split_asm
        simp del: parseValue.simps parseElements.simps parseMembers.simps)
qed

lemma parseMembers_inv:
  assumes "parseMembers (Suc n) s = Some (ms, r)"
  shows "\<exists>qs k r1 cs v r2 e es. skipWs s = 0x22 # qs \<and> parseChars qs = Some (k, r1) \<and>
     skipWs r1 = 0x3A # cs \<and> parseValue n cs = Some (v, r2) \<and> skipWs r2 = e # es \<and>
     (e = 0x2C \<and> (\<exists>ms'. parseMembers n es = Some (ms', r) \<and> ms = (k, v) # ms') \<or>
      e = 0x7D \<and> r = es \<and> ms = [(k, v)])"
proof -
  from assms obtain q qs where q: "skipWs s = q # qs"
    by (cases "skipWs s") simp_all
  with assms have q22: "q = 0x22" by (auto split: if_split_asm)
  from assms q q22 obtain k r1 where k: "parseChars qs = Some (k, r1)"
    by (cases "parseChars qs") (auto simp del: parseValue.simps)
  from assms q q22 k obtain c cs where c: "skipWs r1 = c # cs"
    by (cases "skipWs r1") (simp_all del: parseValue.simps)
  with assms q q22 k have c3a: "c = 0x3A" by (auto split: if_split_asm simp del: parseValue.simps)
  from assms q q22 k c c3a obtain v r2 where v: "parseValue n cs = Some (v, r2)"
    by (cases "parseValue n cs") (auto simp del: parseValue.simps)
  from assms q q22 k c c3a v obtain e es where e: "skipWs r2 = e # es"
    by (cases "skipWs r2") (simp_all del: parseValue.simps)
  from assms [unfolded parseMembers.simps(2)] q q22 k c c3a v e show ?thesis
    by (cases "e = 0x2C")
      (auto split: option.split_asm if_split_asm
        simp del: parseValue.simps parseElements.simps parseMembers.simps)
qed


lemma parse_consumes:
  "(\<forall>s v r. parseValue n s = Some (v, r) \<longrightarrow> length r < length s) \<and>
   (\<forall>s v r. parseElements n s = Some (v, r) \<longrightarrow> length r < length s) \<and>
   (\<forall>s v r. parseMembers n s = Some (v, r) \<longrightarrow> length r < length s)"
proof (induction n)
  case 0
  show ?case by simp
next
  case (Suc n)
  then have V: "length r < length s" if "parseValue n s = Some (v, r)" for s v r
    using that by blast
  from Suc have E: "length r < length s" if "parseElements n s = Some (v, r)" for s v r
    using that by blast
  from Suc have M: "length r < length s" if "parseMembers n s = Some (v, r)" for s v r
    using that by blast
  have v: "length r < length s" if a: "parseValue (Suc n) s = Some (v, r)" for s v r
    using parseValue_inv [OF a]
    by (auto dest!: skipWs_Cons parseChars_consumes E M parsePrimitive_consumes)
  have e: "length r < length s" if a: "parseElements (Suc n) s = Some (v, r)" for s v r
    using parseElements_inv [OF a]
    by (auto dest!: skipWs_Cons V E)
  have m: "length r < length s" if a: "parseMembers (Suc n) s = Some (v, r)" for s v r
    using parseMembers_inv [OF a]
    by (auto dest!: skipWs_Cons parseChars_consumes V M)
  from v e m show ?case by blast
qed


lemma parse_fuel:
  "(\<forall>s v r m. parseValue n s = Some (v, r) \<longrightarrow> 2 * (length s - length r) \<le> m \<longrightarrow>
      parseValue m s = Some (v, r)) \<and>
   (\<forall>s v r m. parseElements n s = Some (v, r) \<longrightarrow> 2 * (length s - length r) \<le> m \<longrightarrow>
      parseElements m s = Some (v, r)) \<and>
   (\<forall>s v r m. parseMembers n s = Some (v, r) \<longrightarrow> 2 * (length s - length r) \<le> m \<longrightarrow>
      parseMembers m s = Some (v, r))"
proof (induction n)
  case 0
  show ?case by simp
next
  case (Suc n)
  then have V: "parseValue m s = Some (v, r)"
    if "parseValue n s = Some (v, r)" "2 * (length s - length r) \<le> m" for s v r m
    using that by blast
  from Suc have E: "parseElements m s = Some (v, r)"
    if "parseElements n s = Some (v, r)" "2 * (length s - length r) \<le> m" for s v r m
    using that by blast
  from Suc have M: "parseMembers m s = Some (v, r)"
    if "parseMembers n s = Some (v, r)" "2 * (length s - length r) \<le> m" for s v r m
    using that by blast
  note cV = parse_consumes [THEN conjunct1, rule_format]
  note cE = parse_consumes [THEN conjunct2, THEN conjunct1, rule_format]
  note cM = parse_consumes [THEN conjunct2, THEN conjunct2, rule_format]
  have v: "parseValue m s = Some (v, r)"
    if a: "parseValue (Suc n) s = Some (v, r)" and b: "2 * (length s - length r) \<le> m"
    for s v r m
  proof -
    from cV [OF a] b obtain m' where m: "m = Suc m'" by (cases m) auto
    from parseValue_inv [OF a] obtain c cs where sk: "skipWs s = c # cs"
      and alt: "c = 0x22 \<and> (\<exists>str. parseChars cs = Some (str, r) \<and> v = JStr str) \<or>
      c = 0x5B \<and> (\<exists>d ds. skipWs cs = d # ds \<and>
         (d = 0x5D \<and> r = ds \<and> v = JArr [] \<or>
          d \<noteq> 0x5D \<and> (\<exists>vs. parseElements n cs = Some (vs, r) \<and> v = JArr vs))) \<or>
      c = 0x7B \<and> (\<exists>d ds. skipWs cs = d # ds \<and>
         (d = 0x7D \<and> r = ds \<and> v = JObj [] \<or>
          d \<noteq> 0x7D \<and> (\<exists>ms. parseMembers n cs = Some (ms, r) \<and> v = JObj ms))) \<or>
      c \<noteq> 0x22 \<and> c \<noteq> 0x5B \<and> c \<noteq> 0x7B \<and> parsePrimitive (c # cs) = Some (v, r)"
      by blast
    have len: "Suc (length cs) \<le> length s" using sk by (rule skipWs_Cons)
    have e: "parseElements m' cs = Some (vs, r)" if p: "parseElements n cs = Some (vs, r)" for vs
    proof (rule E [OF p])
      from cE [OF p] len b m show "2 * (length cs - length r) \<le> m'" by simp
    qed
    have o: "parseMembers m' cs = Some (ms, r)" if p: "parseMembers n cs = Some (ms, r)" for ms
    proof (rule M [OF p])
      from cM [OF p] len b m show "2 * (length cs - length r) \<le> m'" by simp
    qed
    from alt show ?thesis
      unfolding m
      by (elim disjE conjE exE)
        (simp_all add: sk e o del: parseElements.simps parseMembers.simps)
  qed
  have e: "parseElements m s = Some (vs, r)"
    if a: "parseElements (Suc n) s = Some (vs, r)" and b: "2 * (length s - length r) \<le> m"
    for s vs r m
  proof -
    from cE [OF a] b obtain m' where m: "m = Suc m'" by (cases m) auto
    from parseElements_inv [OF a] obtain v r1 c cs
      where pv: "parseValue n s = Some (v, r1)" and sk: "skipWs r1 = c # cs"
        and alt: "c = 0x2C \<and> (\<exists>vs'. parseElements n cs = Some (vs', r) \<and> vs = v # vs') \<or>
          c = 0x5D \<and> r = cs \<and> vs = [v]"
      by blast
    have len: "Suc (length cs) \<le> length r1" using sk by (rule skipWs_Cons)
    have r1: "length r1 < length s" using pv by (rule cV)
    have rc: "length r \<le> length cs" using alt by (auto dest: cE)
    have pv': "parseValue m' s = Some (v, r1)"
    proof (rule V [OF pv])
      from len r1 rc b m show "2 * (length s - length r1) \<le> m'" by simp
    qed
    have pe: "parseElements m' cs = Some (vs', r)" if p: "parseElements n cs = Some (vs', r)" for vs'
    proof (rule E [OF p])
      from len r1 rc b m show "2 * (length cs - length r) \<le> m'" by simp
    qed
    from alt show ?thesis
      unfolding m parseElements.simps(2) [of m' s]
      by (elim disjE conjE exE)
        (simp_all add: pv' sk pe del: parseValue.simps parseElements.simps parseMembers.simps)
  qed
  have mm: "parseMembers m s = Some (ms, r)"
    if a: "parseMembers (Suc n) s = Some (ms, r)" and b: "2 * (length s - length r) \<le> m"
    for s ms r m
  proof -
    from cM [OF a] b obtain m' where m: "m = Suc m'" by (cases m) auto
    from parseMembers_inv [OF a] obtain qs k r1 cs v r2 e es
      where sq: "skipWs s = 0x22 # qs" and pk: "parseChars qs = Some (k, r1)"
        and sc: "skipWs r1 = 0x3A # cs" and pv: "parseValue n cs = Some (v, r2)"
        and se: "skipWs r2 = e # es"
        and alt: "e = 0x2C \<and> (\<exists>ms'. parseMembers n es = Some (ms', r) \<and> ms = (k, v) # ms') \<or>
          e = 0x7D \<and> r = es \<and> ms = [(k, v)]"
      by blast
    have l1: "Suc (length qs) \<le> length s" using sq by (rule skipWs_Cons)
    have l2: "length r1 < length qs" using pk by (rule parseChars_consumes)
    have l3: "Suc (length cs) \<le> length r1" using sc by (rule skipWs_Cons)
    have l4: "length r2 < length cs" using pv by (rule cV)
    have l5: "Suc (length es) \<le> length r2" using se by (rule skipWs_Cons)
    have l6: "length r \<le> length es" using alt by (auto dest: cM)
    have pv': "parseValue m' cs = Some (v, r2)"
    proof (rule V [OF pv])
      from l1 l2 l3 l4 l5 l6 b m show "2 * (length cs - length r2) \<le> m'" by simp
    qed
    have pm: "parseMembers m' es = Some (ms', r)" if p: "parseMembers n es = Some (ms', r)" for ms'
    proof (rule M [OF p])
      from l1 l2 l3 l4 l5 l6 b m show "2 * (length es - length r) \<le> m'" by simp
    qed
    from alt show ?thesis
      unfolding m parseMembers.simps(2) [of m' s]
      by (elim disjE conjE exE)
        (simp_all add: sq pk sc pv' se pm del: parseValue.simps parseElements.simps parseMembers.simps)
  qed
  from v e mm show ?case by blast
qed

text \<open>
  The bound of \<open>JSON_parse\<close> never cuts a parse short: a text that parses under some
  bound parses under the bound that \<open>JSON_parse\<close> uses.
\<close>

lemma JSON_parse_bound:
  "parseValue n text = Some (v, r) \<Longrightarrow> parseValue (2 * length text + 2) text = Some (v, r)"
  using parse_fuel [of n, THEN conjunct1, rule_format, of "text" v r "2 * length text + 2"]
  by simp

lemma JSON_parse_complete:
  "parseValue n text = Some (v, r) \<Longrightarrow> skipWs r = [] \<Longrightarrow> JSON_parse text = Some v"
  using JSON_parse_bound [of n "text" v r] by (simp add: JSON_parse_def)

section \<open>Properties of the tag codec\<close>

subsection \<open>Trimming\<close>

lemma trim_subset: "set (trim s) \<subseteq> set s"
  unfolding trim_def trimEnd_def trimStart_def
  by (auto dest!: set_dropWhileD)

lemma trim_has_nonblank: "trim s \<noteq> [] \<Longrightarrow> \<exists>c\<in>set (trim s). \<not> isWhiteSpace c"
proof -
  assume a: "trim s \<noteq> []"
  let ?t = "dropWhile isWhiteSpace (rev (trimStart s))"
  from a have ne: "?t \<noteq> []" by (simp add: trim_def trimEnd_def)
  then have "\<not> isWhiteSpace (hd ?t)" by (rule hd_dropWhile)
  moreover from ne have "hd ?t \<in> set (trim s)" by (simp add: trim_def trimEnd_def)
  ultimately show ?thesis by blast
qed

lemma filterStrings_nonblank:
  "t \<in> set (filterStrings a) \<Longrightarrow> \<exists>c\<in>set t. \<not> isWhiteSpace c"
proof -
  assume "t \<in> set (filterStrings a)"
  then obtain v where "keepItem v = Some t"
    by (auto simp: filterStrings_def List.map_filter_def)
  then have "trim t \<noteq> []" by (cases v) (auto split: if_splits)
  then show ?thesis using trim_has_nonblank trim_subset by blast
qed

lemma filterStrings_strings:
  "\<forall>t\<in>set xs. trim t \<noteq> [] \<Longrightarrow> filterStrings (map JStr xs) = xs"
  by (induction xs) (simp_all add: filterStrings_def List.map_filter_simps)

lemma filterStrings_sublist:
  "map JStr (filterStrings a) =
     filter (\<lambda>v. case v of JStr s \<Rightarrow> trim s \<noteq> [] | _ \<Rightarrow> False) a"
proof (induction a)
  case Nil
  show ?case by (simp add: filterStrings_def List.map_filter_simps)
next
  case (Cons v a)
  then show ?case
    by (cases v) (simp_all add: filterStrings_def List.map_filter_simps)
qed

subsection \<open>Reading back what \<open>JSON.stringify\<close> wrote\<close>

lemma hexval_hexdigit: "n < 16 \<Longrightarrow> hexval (hexdigit n) = Some n"
proof -
  assume n: "n < 16"
  have "list_all (\<lambda>k. hexval (hexdigit k) = Some k) [0..<16]"
    by code_simp
  with n show ?thesis by (simp add: list_all_iff)
qed

lemma hex_digits_sum:
  "4096 * (n div 4096) + 256 * (n div 256 mod 16) + 16 * (n div 16 mod 16) + n mod 16 = (n::nat)"
proof -
  define a where "a = n div 16"
  define b where "b = a div 16"
  define c where "c = b div 16"
  define r0 where "r0 = n mod 16"
  define r1 where "r1 = a mod 16"
  define r2 where "r2 = b mod 16"
  have n: "n = 16 * a + r0" by (simp add: a_def r0_def)
  have a: "a = 16 * b + r1" by (simp add: b_def r1_def)
  have b: "b = 16 * c + r2" by (simp add: c_def r2_def)
  have b': "n div 256 = b" by (simp add: b_def a_def div_mult2_eq)
  have c': "n div 4096 = c" by (simp add: c_def b_def a_def div_mult2_eq)
  have "4096 * c + 256 * r2 + 16 * r1 + r0 = n"
    by (subst n, subst a, subst b) simp
  then show ?thesis
    unfolding b' c' by (simp only: r0_def r1_def r2_def a_def b' b_def [symmetric])
qed

lemma hex4_digits:
  "hex4 (hexdigit (unat c div 4096)) (hexdigit (unat c div 256 mod 16))
     (hexdigit (unat c div 16 mod 16)) (hexdigit (unat c mod 16)) = Some c" for c :: "16 word"
proof -
  have "unat c < 65536" using unsigned_less [of c] by simp
  then have a: "unat c div 4096 < 16" by simp
  show ?thesis by (simp add: hex4_def hexval_hexdigit a hex_digits_sum)
qed

lemma parseChars_uescape: "parseChars (uescape c @ t) = consChar c (parseChars t)"
  by (simp add: uescape_def Let_def hex4_digits)

lemma parseChars_plain:
  "c \<noteq> 0x22 \<Longrightarrow> c \<noteq> 0x5C \<Longrightarrow> \<not> c < 0x20 \<Longrightarrow> parseChars (c # t) = consChar c (parseChars t)"
  by simp

lemma parseChars_quoteUnit: "parseChars (quoteUnit c @ t) = consChar c (parseChars t)"
  by (simp add: quoteUnit_def parseChars_uescape unescape_def)

lemma surrogate_plain:
  "isHighSurrogate c \<or> isLowSurrogate c \<Longrightarrow> c \<noteq> 0x22 \<and> c \<noteq> 0x5C \<and> \<not> c < 0x20"
  by (auto simp: isHighSurrogate_def isLowSurrogate_def word_le_nat_alt word_less_nat_alt)

lemma parseChars_quoteBody: "parseChars (quoteBody s @ 0x22 # rest) = Some (s, rest)"
proof (induction s rule: quoteBody.induct)
  case 1
  show ?case by simp
next
  case (2 c)
  show ?case by (simp add: parseChars_uescape parseChars_quoteUnit consChar_def)
next
  case (3 c d cs)
  show ?case
  proof (cases "isHighSurrogate c \<and> isLowSurrogate d")
    case True
    then have "parseChars (c # d # quoteBody cs @ 0x22 # rest)
        = consChar c (consChar d (parseChars (quoteBody cs @ 0x22 # rest)))"
      using surrogate_plain [of c] surrogate_plain [of d]
      by (simp add: parseChars_plain del: parseChars.simps)
    with True 3 show ?thesis by (simp add: consChar_def)
  next
    case False
    with 3 show ?thesis
      by (auto simp: parseChars_uescape parseChars_quoteUnit consChar_def
          simp del: parseChars.simps)
  qed
qed

lemma parseValue_quoted:
  "parseValue (Suc n) (quoteJSONString x @ rest) = Some (JStr x, rest)"
proof -
  have "parseChars (quoteBody x @ [0x22] @ rest) = Some (x, rest)"
    using parseChars_quoteBody [of x rest] by simp
  then show ?thesis
    by (simp add: skipWs_def quoteJSONString_def isJsonWs_def)
qed

lemma parseElements_elementsText:
  "xs \<noteq> [] \<Longrightarrow> length xs < n \<Longrightarrow>
   parseElements n (elementsText xs @ rest) = Some (map JStr xs, rest)"
proof (induction xs arbitrary: n rule: elementsText.induct)
  case 1
  then show ?case by simp
next
  case (2 x)
  then obtain m where n: "n = Suc (Suc m)"
    by (cases n; cases "n - 1") auto
  have "parseValue (Suc m) (quoteJSONString x @ 0x5D # rest) = Some (JStr x, 0x5D # rest)"
    by (rule parseValue_quoted)
  then show ?case by (simp add: n skipWs_def isJsonWs_def)
next
  case (3 x y ys)
  then obtain m where n: "n = Suc (Suc m)" and m: "length (y # ys) < Suc m"
    by (cases n; cases "n - 1") auto
  have v: "parseValue (Suc m) (quoteJSONString x @ 0x2C # elementsText (y # ys) @ rest)
      = Some (JStr x, 0x2C # elementsText (y # ys) @ rest)"
    by (rule parseValue_quoted)
  have ih: "parseElements (Suc m) (elementsText (y # ys) @ rest) = Some (map JStr (y # ys), rest)"
    using 3 m by blast
  have "parseElements (Suc (Suc m)) (quoteJSONString x @ 0x2C # elementsText (y # ys) @ rest)
      = Some (JStr x # map JStr (y # ys), rest)"
    by (subst parseElements.simps(2))
      (simp add: v ih skipWs_def isJsonWs_def del: parseElements.simps parseValue.simps)
  then show ?case by (simp add: n del: parseElements.simps parseValue.simps)
qed

lemma length_elementsText: "length xs \<le> length (elementsText xs)"
  by (induction xs rule: elementsText.induct) (auto simp: quoteJSONString_def)

lemma JSON_parse_stringify:
  "xs \<noteq> [] \<Longrightarrow> JSON_parse (JSON_stringify xs) = Some (JArr (map JStr xs))"
proof -
  assume ne: "xs \<noteq> []"
  define n where "n = 2 * length (elementsText xs) + 3"
  have n: "length xs < n" using length_elementsText [of xs] by (simp add: n_def)
  from ne obtain y ys where xs: "xs = y # ys" by (cases xs) auto
  have hd: "\<exists>t. elementsText xs = 0x22 # t"
    by (cases ys) (simp_all add: xs quoteJSONString_def)
  have "parseElements n (elementsText xs @ []) = Some (map JStr xs, [])"
    using ne n by (rule parseElements_elementsText)
  then have e: "parseElements n (elementsText xs) = Some (map JStr xs, [])" by simp
  have "parseValue (Suc n) (0x5B # elementsText xs) = Some (JArr (map JStr xs), [])"
    using hd e
    by (subst parseValue.simps(2))
      (auto simp: skipWs_def isJsonWs_def simp del: parseElements.simps parseValue.simps)
  moreover have "2 * length (JSON_stringify xs) + 2 = Suc n"
    by (simp add: JSON_stringify_def n_def)
  ultimately show ?thesis
    by (simp add: JSON_parse_def JSON_stringify_def skipWs_def del: parseValue.simps)
qed

lemma JSON_stringify_nonempty: "JSON_stringify xs \<noteq> []"
  by (simp add: JSON_stringify_def)

subsection \<open>C1: the round trip of tags\<close>

text \<open>
  C1. For every list of tags, \<open>safeJsonStringify\<close> returns \<open>null\<close> exactly when the list is
  empty and otherwise the JSON text of the array; for every list of non-empty trimmed
  strings, \<open>safeJsonParse\<close> of what \<open>safeJsonStringify\<close> wrote is the list again; and
  \<open>safeJsonParse\<close> of \<open>null\<close> is the empty list.
\<close>

theorem tag_round_trip:
  "(safeJsonStringify tags = None \<longleftrightarrow> tags = []) \<and>
   (tags \<noteq> [] \<longrightarrow> safeJsonStringify tags = Some (JSON_stringify tags)) \<and>
   ((\<forall>t\<in>set tags. t \<noteq> [] \<and> trim t = t) \<longrightarrow>
      safeJsonParse (columnOf (safeJsonStringify tags)) = tags) \<and>
   safeJsonParse SNull = []"
proof -
  have rt: "safeJsonParse (columnOf (safeJsonStringify tags)) = tags"
    if ok: "\<forall>t\<in>set tags. t \<noteq> [] \<and> trim t = t"
  proof (cases "tags = []")
    case True
    then show ?thesis by (simp add: safeJsonStringify_def columnOf_def)
  next
    case False
    from ok have "\<forall>t\<in>set tags. trim t \<noteq> []" by auto
    then have "filterStrings (map JStr tags) = tags" by (rule filterStrings_strings)
    with False show ?thesis
      by (simp add: safeJsonStringify_def columnOf_def JSON_parse_stringify
          JSON_stringify_nonempty)
  qed
  show ?thesis
    using rt by (simp add: safeJsonStringify_def)
qed

theorem tag_round_trip_witness:
  "[js ''Cash'', js ''Liquid Vaults''] \<noteq> [] \<and>
   js ''Cash'' \<noteq> [] \<and> trim (js ''Cash'') = js ''Cash'' \<and>
   js ''Liquid Vaults'' \<noteq> [] \<and> trim (js ''Liquid Vaults'') = js ''Liquid Vaults'' \<and>
   safeJsonStringify [js ''Cash'', js ''Liquid Vaults''] =
     Some (js ''[\"Cash\",\"Liquid Vaults\"]'') \<and>
   safeJsonParse (SStr (js ''[\"Cash\",\"Liquid Vaults\"]'')) =
     [js ''Cash'', js ''Liquid Vaults'']"
proof -
  let ?tags = "[js ''Cash'', js ''Liquid Vaults'']"
  have h: "\<forall>t\<in>set ?tags. t \<noteq> [] \<and> trim t = t"
    by code_simp
  have ne: "?tags \<noteq> []" by simp
  have s: "JSON_stringify ?tags = js ''[\"Cash\",\"Liquid Vaults\"]''"
    by code_simp
  from tag_round_trip [of ?tags] ne
  have e: "safeJsonStringify ?tags = Some (JSON_stringify ?tags)" by blast
  from tag_round_trip [of ?tags] h
  have "safeJsonParse (columnOf (safeJsonStringify ?tags)) = ?tags" by blast
  then have r: "safeJsonParse (SStr (js ''[\"Cash\",\"Liquid Vaults\"]'')) = ?tags"
    unfolding e s columnOf_def by (simp only: option.case)
  from e s have e': "safeJsonStringify ?tags = Some (js ''[\"Cash\",\"Liquid Vaults\"]'')"
    by (simp only:)
  from h have h': "js ''Cash'' \<noteq> [] \<and> trim (js ''Cash'') = js ''Cash'' \<and>
      js ''Liquid Vaults'' \<noteq> [] \<and> trim (js ''Liquid Vaults'') = js ''Liquid Vaults''"
    by simp
  from ne h' e' r show ?thesis by blast
qed

subsection \<open>C5: values that were not written by \<open>safeJsonStringify\<close>\<close>

text \<open>
  C5, as stated, asks that every text with a non-blank content that is not a JSON array is
  read as the single tag made of that text, trimmed. The text \<open>123\<close> is valid JSON, a
  number: it is neither an array nor a string, and \<open>safeJsonParse\<close> returns no tag.
\<close>

theorem legacy_plain_string_counterexample:
  "trim (js ''123'') \<noteq> [] \<and>
   JSON_parse (js ''123'') = Some (JNum (js ''123'')) \<and>
   safeJsonParse (SStr (js ''123'')) = [] \<and>
   safeJsonParse (SStr (js ''123'')) \<noteq> [trim (js ''123'')]"
  by code_simp

text \<open>
  C5, amended. A value that is already an array yields its elements that are strings with
  a non-blank content, in their order. A text that is not valid JSON and has a non-blank
  content yields the single tag made of the text, trimmed; a text that is the JSON
  literal of a string with a non-blank content yields that string, trimmed.
\<close>

theorem legacy_values:
  "map JStr (safeJsonParse (SArr a)) =
     filter (\<lambda>v. case v of JStr s \<Rightarrow> trim s \<noteq> [] | _ \<Rightarrow> False) a \<and>
   (JSON_parse s = None \<and> trim s \<noteq> [] \<longrightarrow> safeJsonParse (SStr s) = [trim s]) \<and>
   (JSON_parse s = Some (JStr p) \<and> trim p \<noteq> [] \<longrightarrow> safeJsonParse (SStr s) = [trim p])"
proof -
  have "trim s \<noteq> [] \<Longrightarrow> s \<noteq> []" by (auto simp: trim_def trimEnd_def trimStart_def)
  moreover have "JSON_parse s = Some (JStr p) \<Longrightarrow> s \<noteq> []"
    by (auto simp: JSON_parse_def skipWs_def)
  ultimately show ?thesis
    by (auto simp: filterStrings_sublist)
qed

theorem legacy_values_witness:
  "JSON_parse (js '' Liquid Vaults '') = None \<and> trim (js '' Liquid Vaults '') \<noteq> [] \<and>
   safeJsonParse (SStr (js '' Liquid Vaults '')) = [js ''Liquid Vaults''] \<and>
   JSON_parse (js ''\" Cash\"'') = Some (JStr (js '' Cash'')) \<and> trim (js '' Cash'') \<noteq> [] \<and>
   safeJsonParse (SStr (js ''\" Cash\"'')) = [js ''Cash'']"
proof -
  have a: "JSON_parse (js '' Liquid Vaults '') = None" by code_simp
  have b: "trim (js '' Liquid Vaults '') = js ''Liquid Vaults''" by code_simp
  have c: "JSON_parse (js ''\" Cash\"'') = Some (JStr (js '' Cash''))" by code_simp
  have d: "trim (js '' Cash'') = js ''Cash''" by code_simp
  have e: "js ''Liquid Vaults'' \<noteq> [] \<and> js ''Cash'' \<noteq> []" by code_simp
  from legacy_values [of "[]" "js '' Liquid Vaults ''" "[]"]
    legacy_values [of "[]" "js ''\" Cash\"''" "js '' Cash''"] a b c d e
  show ?thesis by simp
qed

subsection \<open>C9: the decoder is total\<close>

text \<open>
  C9. \<open>safeJsonParse\<close> is defined on every input: \<open>null\<close>, an array of arbitrary elements,
  any text (the \<open>SyntaxError\<close> of \<open>JSON.parse\<close> is the case \<open>None\<close>, which the \<open>catch\<close>
  handles). Every element of the list it returns is a string that contains a code unit
  that is not white space.
\<close>

theorem safeJsonParse_total:
  "\<exists>tags. safeJsonParse x = tags \<and> (\<forall>t\<in>set tags. \<exists>c\<in>set t. \<not> isWhiteSpace c)"
proof (cases x)
  case SNull
  then show ?thesis by simp
next
  case (SArr a)
  then show ?thesis by (simp add: filterStrings_nonblank)
next
  case (SStr s)
  show ?thesis
  proof (cases "JSON_parse s")
    case None
    with SStr show ?thesis by (simp add: trim_has_nonblank)
  next
    case (Some v)
    with SStr show ?thesis
      by (cases v) (simp_all add: filterStrings_nonblank trim_has_nonblank)
  qed
qed

theorem safeJsonParse_total_witness:
  "safeJsonParse (SStr (js ''[\"Cash\", \"  \", 7, \"\"]'')) = [js ''Cash''] \<and>
   (\<exists>c\<in>set (js ''Cash''). \<not> isWhiteSpace c)"
proof -
  have a: "safeJsonParse (SStr (js ''[\"Cash\", \"  \", 7, \"\"]'')) = [js ''Cash'']"
    by code_simp
  from safeJsonParse_total [of "SStr (js ''[\"Cash\", \"  \", 7, \"\"]'')"] a
  show ?thesis by simp
qed

section \<open>C6: the surrogate id of a non-numeric identifier\<close>

lemma wrap_signed:
  fixes N :: int
  assumes N: "0 < N"
  shows "(x + N) mod (2 * N) - N =
    (if x mod (2 * N) \<ge> N then x mod (2 * N) - 2 * N else x mod (2 * N))"
proof -
  define m where "m = x mod (2 * N)"
  have m: "0 \<le> m" "m < 2 * N" using N by (simp_all add: m_def)
  have e: "(x + N) mod (2 * N) = (m + N) mod (2 * N)"
    by (simp add: m_def mod_add_left_eq)
  show ?thesis
  proof (cases "m \<ge> N")
    case True
    have "(m + N) mod (2 * N) = (m - N + 2 * N) mod (2 * N)" by (simp add: algebra_simps)
    also have "\<dots> = (m - N) mod (2 * N)" by (simp only: mod_add_self2)
    also have "\<dots> = m - N" using True m by (intro mod_pos_pos_trivial) linarith+
    finally show ?thesis using True e unfolding m_def [symmetric] by simp
  next
    case False
    have "(m + N) mod (2 * N) = m + N" using False m by (intro mod_pos_pos_trivial) linarith+
    then show ?thesis using False e unfolding m_def [symmetric] by simp
  qed
qed

lemma toInt32_sint: "toInt32 x = sint (word_of_int x :: 32 word)"
proof -
  have "(x + 2 ^ 31) mod 2 ^ 32 - 2 ^ 31 =
      (if x mod 2 ^ 32 \<ge> 2 ^ 31 then x mod 2 ^ 32 - 2 ^ 32 else x mod 2 ^ 32)"
    using wrap_signed [of "2 ^ 31" x] by simp
  then show ?thesis
    by (simp add: toInt32_def Let_def int_word_sint)
qed

lemma toInt32_of_sint: "toInt32 (sint (h :: 32 word)) = sint h"
  by (simp only: toInt32_sint of_int_sint scast_id)

lemma hashStep_sint: "hashStep (sint h) c = sint (wordStep h c)"
proof -
  have w: "(word_of_int (sint h * 2 ^ 5) :: 32 word) = h * 2 ^ 5"
    by (simp only: of_int_mult of_int_sint scast_id of_int_power of_int_numeral)
  have "shiftLeft (sint h) 5 = toInt32 (sint h * 2 ^ 5)"
    by (simp only: shiftLeft_def toInt32_of_sint)
  also have "\<dots> = sint (word_of_int (sint h * 2 ^ 5) :: 32 word)"
    by (rule toInt32_sint)
  also have "\<dots> = sint (push_bit 5 h)"
    by (simp only: w push_bit_eq_mult)
  finally have s: "shiftLeft (sint h) 5 = sint (push_bit 5 h)" .
  define a' where "a' = sint (push_bit 5 h) - sint h + uint c"
  have "(word_of_int a' :: 32 word) = wordStep h c"
    unfolding a'_def
    by (simp only: wordStep_def ucast_eq of_int_add of_int_diff of_int_sint scast_id)
  then have t: "toInt32 a' = sint (wordStep h c)"
    by (simp only: toInt32_sint)
  have "hashStep (sint h) c = bitAnd a' a'"
    by (simp only: hashStep_def Let_def s a'_def)
  also have "\<dots> = toInt32 (toInt32 a')"
    by (simp only: bitAnd_def and.idem)
  also have "\<dots> = sint (wordStep h c)"
    by (simp only: t toInt32_of_sint)
  finally show ?thesis .
qed

lemma foldl_hashStep: "foldl hashStep (sint h) s = sint (foldl wordStep h s)"
  by (induction s arbitrary: h) (simp_all add: hashStep_sint)

lemma hashTicketId_wrapped: "hashTicketId s = \<bar>sint (wrappedHash s)\<bar>"
  using foldl_hashStep [of 0 s] by (simp add: hashTicketId_def wrappedHash_def)

text \<open>
  C6. When the trimmed identifier is not numeric, the id that \<open>createTicket\<close> inserts and
  the id that \<open>updateTicket\<close> sends are the absolute value of the 32-bit fold
  \<open>h := ((h << 5) - h) + charCode\<close> from 0; and two distinct non-numeric identifiers
  get the same id.
\<close>

theorem surrogate_id:
  "(f_ticket_id data = Some tid \<and> trim tid \<noteq> [] \<and> \<not> isNumeric (trim tid) \<longrightarrow>
      (\<exists>payload. createTicketData parseInt now data = Inr payload \<and>
         i_ticket_id payload = Num \<bar>sint (wrappedHash (trim tid))\<bar>)) \<and>
   (p_ticket_id updates = Some tid \<and> trim tid \<noteq> [] \<and> \<not> isNumeric (trim tid) \<longrightarrow>
      u_ticket_id (updateTicketData parseInt now updates) =
        Some (Num \<bar>sint (wrappedHash (trim tid))\<bar>)) \<and>
   (\<exists>a b. a \<noteq> b \<and> \<not> isNumeric a \<and> \<not> isNumeric b \<and>
      deriveTicketId parseInt a = deriveTicketId parseInt b)"
proof (intro conjI impI)
  assume a: "f_ticket_id data = Some tid \<and> trim tid \<noteq> [] \<and> \<not> isNumeric (trim tid)"
  then have "tid \<noteq> []" by (auto simp: trim_def trimEnd_def trimStart_def)
  with a show "\<exists>payload. createTicketData parseInt now data = Inr payload \<and>
         i_ticket_id payload = Num \<bar>sint (wrappedHash (trim tid))\<bar>"
    by (simp add: createTicketData_def deriveTicketId_def hashTicketId_wrapped)
next
  assume a: "p_ticket_id updates = Some tid \<and> trim tid \<noteq> [] \<and> \<not> isNumeric (trim tid)"
  then have "tid \<noteq> []" by (auto simp: trim_def trimEnd_def trimStart_def)
  with a show "u_ticket_id (updateTicketData parseInt now updates) =
        Some (Num \<bar>sint (wrappedHash (trim tid))\<bar>)"
    by (simp add: updateTicketData_def Let_def deriveTicketId_def hashTicketId_wrapped)
next
  have "js ''Aa'' \<noteq> js ''BB''" by code_simp
  moreover have "\<not> isNumeric (js ''Aa'')" by code_simp
  moreover have "\<not> isNumeric (js ''BB'')" by code_simp
  moreover have "hashTicketId (js ''Aa'') = hashTicketId (js ''BB'')" by code_simp
  ultimately show "\<exists>a b. a \<noteq> b \<and> \<not> isNumeric a \<and> \<not> isNumeric b \<and>
      deriveTicketId parseInt a = deriveTicketId parseInt b"
    unfolding deriveTicketId_def by (intro exI [of _ "js ''Aa''"] exI [of _ "js ''BB''"]) simp
qed

theorem surrogate_id_witness:
  "f_ticket_id form0 = Some (js '' Aa '') \<and> trim (js '' Aa '') = js ''Aa'' \<and>
   \<not> isNumeric (js ''Aa'') \<and>
   (\<exists>payload. createTicketData (\<lambda>s. NaN) now0 form0 = Inr payload \<and>
      i_ticket_id payload = Num 2112) \<and>
   p_ticket_id fullUpdate = Some (js ''BB'') \<and> trim (js ''BB'') = js ''BB'' \<and>
   \<not> isNumeric (js ''BB'') \<and>
   u_ticket_id (updateTicketData (\<lambda>s. NaN) now0 fullUpdate) = Some (Num 2112)"
proof -
  have a: "f_ticket_id form0 = Some (js '' Aa '')" by (simp add: form0_def)
  have b: "trim (js '' Aa '') = js ''Aa''" by code_simp
  have c: "\<not> isNumeric (js ''Aa'')" by code_simp
  have d: "\<bar>sint (wrappedHash (js ''Aa''))\<bar> = 2112" by code_simp
  have e: "p_ticket_id fullUpdate = Some (js ''BB'')" by (simp add: fullUpdate_def)
  have f: "trim (js ''BB'') = js ''BB''" by code_simp
  have g: "\<not> isNumeric (js ''BB'')" by code_simp
  have h: "\<bar>sint (wrappedHash (js ''BB''))\<bar> = 2112" by code_simp
  have i: "js ''Aa'' \<noteq> []" "js ''BB'' \<noteq> []" by (simp_all add: js_def)
  from surrogate_id [of form0 "js '' Aa ''" "\<lambda>s. NaN" now0 fullUpdate] a b c d i
  have 1: "\<exists>payload. createTicketData (\<lambda>s. NaN) now0 form0 = Inr payload \<and>
      i_ticket_id payload = Num 2112" by simp
  from surrogate_id [of form0 "js ''BB''" "\<lambda>s. NaN" now0 fullUpdate] e f g h i
  have 2: "u_ticket_id (updateTicketData (\<lambda>s. NaN) now0 fullUpdate) = Some (Num 2112)" by simp
  from a b c e f g 1 2 show ?thesis by blast
qed

section \<open>C3: the resolution date\<close>

text \<open>
  C3. The object that \<open>createTicket\<close> inserts, the object that \<open>updateTicket\<close> sends when
  a status is supplied (and the stored row after it), and the object that
  \<open>bulkUpdateTicketStatus\<close> sends (and every local ticket it changes) carry a resolution
  date that is not \<open>null\<close> exactly when the status is Resolved.
\<close>

theorem resolution_date_iff_resolved:
  "(createTicketData parseInt now data = Inr payload \<longrightarrow>
      (i_date_of_resolved payload \<noteq> None \<longleftrightarrow> i_status payload = Resolved)) \<and>
   (p_status updates = Some s \<longrightarrow>
      u_status (updateTicketData parseInt now updates) = Some s \<and>
      (\<exists>d. u_date_of_resolved (updateTicketData parseInt now updates) = Some d \<and>
           (d \<noteq> None \<longleftrightarrow> s = Resolved)) \<and>
      (r_date_of_resolved (applyUpdate (updateTicketData parseInt now updates) row) \<noteq> None
         \<longleftrightarrow> r_status (applyUpdate (updateTicketData parseInt now updates) row) = Some Resolved)) \<and>
   (snd (bulkUpdateData now status) \<noteq> None \<longleftrightarrow> fst (bulkUpdateData now status) = Resolved) \<and>
   (\<forall>t\<in>set (records (snd (bulkUpdateTicketStatus now ids status (Inr ()) st))).
      arrayIncludes ids (t_id t) \<longrightarrow> (t_date_resolved t \<noteq> None \<longleftrightarrow> t_status t = Resolved))"
proof (intro conjI impI)
  assume "createTicketData parseInt now data = Inr payload"
  then show "i_date_of_resolved payload \<noteq> None \<longleftrightarrow> i_status payload = Resolved"
    by (auto simp: createTicketData_def split: option.splits if_splits)
next
  assume s: "p_status updates = Some s"
  let ?u = "updateTicketData parseInt now updates"
  have st: "u_status ?u = Some s"
    using s by (simp add: updateTicketData_def Let_def split: option.splits)
  have d: "u_date_of_resolved ?u = Some (if s = Resolved then Some (isoDate now) else None)"
    using s by (simp add: updateTicketData_def Let_def split: option.splits)
  show "u_status ?u = Some s" by (rule st)
  show "\<exists>d. u_date_of_resolved ?u = Some d \<and> (d \<noteq> None \<longleftrightarrow> s = Resolved)"
    using d by simp
  show "r_date_of_resolved (applyUpdate ?u row) \<noteq> None
         \<longleftrightarrow> r_status (applyUpdate ?u row) = Some Resolved"
    using st d by (simp add: applyUpdate_def)
next
  show "snd (bulkUpdateData now status) \<noteq> None \<longleftrightarrow> fst (bulkUpdateData now status) = Resolved"
    by (simp add: bulkUpdateData_def)
next
  show "\<forall>t\<in>set (records (snd (bulkUpdateTicketStatus now ids status (Inr ()) st))).
      arrayIncludes ids (t_id t) \<longrightarrow> (t_date_resolved t \<noteq> None \<longleftrightarrow> t_status t = Resolved)"
    by (auto simp: bulkUpdateTicketStatus_def Let_def split: if_splits)
qed

theorem resolution_date_iff_resolved_witness:
  "createTicketData (\<lambda>s. NaN) now0 form0 =
     Inr (projr (createTicketData (\<lambda>s. NaN) now0 form0)) \<and>
   i_status (projr (createTicketData (\<lambda>s. NaN) now0 form0)) = Resolved \<and>
   i_date_of_resolved (projr (createTicketData (\<lambda>s. NaN) now0 form0)) \<noteq> None \<and>
   i_date_of_resolved (projr (createTicketData (\<lambda>s. NaN) now0 form0)) = Some (js ''2025-03-04'') \<and>
   p_status statusOnly = Some InDev \<and>
   u_date_of_resolved (updateTicketData (\<lambda>s. NaN) now0 statusOnly) = Some None \<and>
   r_status (applyUpdate (updateTicketData (\<lambda>s. NaN) now0 statusOnly) row0) = Some InDev \<and>
   r_date_of_resolved (applyUpdate (updateTicketData (\<lambda>s. NaN) now0 statusOnly) row0) = None \<and>
   ticket1 \<in> set (records state0) \<and> arrayIncludes [js ''42''] (t_id ticket1) \<and>
   t_status ticket1 = InQA \<and>
   records (snd (bulkUpdateTicketStatus now0 [js ''42''] Resolved (Inr ()) state0)) =
     [ticket0, ticket1\<lparr>t_status := Resolved, t_date_resolved := Some (js ''2025-03-04'')\<rparr>]"
proof -
  let ?p = "projr (createTicketData (\<lambda>s. NaN) now0 form0)"
  have tr: "trim (js '' Aa '') = js ''Aa''" by code_simp
  have ne: "js '' Aa '' \<noteq> []" "js ''Aa'' \<noteq> []" by (simp_all add: js_def)
  have iso: "isoDate now0 = js ''2025-03-04''" by code_simp
  have c: "createTicketData (\<lambda>s. NaN) now0 form0 = Inr ?p"
    by (simp add: createTicketData_def form0_def tr ne)
  have c1: "i_status ?p = Resolved"
    by (simp add: createTicketData_def form0_def tr ne)
  from resolution_date_iff_resolved [of "\<lambda>s. NaN" now0 form0 ?p statusOnly InDev row0 Resolved
      "[js ''42'']" state0] c c1
  have c2: "i_date_of_resolved ?p \<noteq> None" by simp
  have c3: "i_date_of_resolved ?p = Some (js ''2025-03-04'')"
    by (simp add: createTicketData_def form0_def tr ne iso)
  have u0: "p_status statusOnly = Some InDev" by (simp add: statusOnly_def)
  have u1: "u_date_of_resolved (updateTicketData (\<lambda>s. NaN) now0 statusOnly) = Some None"
    by (simp add: updateTicketData_def statusOnly_def Let_def)
  have u2: "r_status (applyUpdate (updateTicketData (\<lambda>s. NaN) now0 statusOnly) row0) = Some InDev"
    by (simp add: updateTicketData_def statusOnly_def Let_def applyUpdate_def)
  have u3: "r_date_of_resolved (applyUpdate (updateTicketData (\<lambda>s. NaN) now0 statusOnly) row0) = None"
    by (simp add: updateTicketData_def statusOnly_def Let_def applyUpdate_def)
  have id0: "t_id ticket0 = js ''41''" by (simp add: ticket0_def transformRow_def row0_def) code_simp
  have id1: "t_id ticket1 = js ''42''" by (simp add: ticket1_def transformRow_def row0_def) code_simp
  have neq: "js ''41'' \<noteq> js ''42''" by code_simp
  have b1: "ticket1 \<in> set (records state0)" by (simp add: state0_def)
  have b2: "arrayIncludes [js ''42''] (t_id ticket1)" by (simp add: arrayIncludes_def id1)
  have b3: "t_status ticket1 = InQA" by (simp add: ticket1_def transformRow_def)
  have b4: "records (snd (bulkUpdateTicketStatus now0 [js ''42''] Resolved (Inr ()) state0)) =
     [ticket0, ticket1\<lparr>t_status := Resolved, t_date_resolved := Some (js ''2025-03-04'')\<rparr>]"
    using neq by (simp add: bulkUpdateTicketStatus_def state0_def Let_def arrayIncludes_def id0 id1 iso)
  from c c1 c2 c3 u0 u1 u2 u3 b1 b2 b3 b4 show ?thesis by blast
qed

section \<open>C10: bulk delete\<close>

lemma arrayIncludes_set: "arrayIncludes xs x \<longleftrightarrow> x \<in> set xs"
  by (auto simp: arrayIncludes_def list_ex_iff)

text \<open>
  C10. When the backend delete succeeds, the local list after \<open>bulkDeleteTickets\<close> is
  the list before it without the tickets whose id is in the given list: the other
  tickets are all kept, unchanged and in their order.
\<close>

theorem bulk_delete_removes_selected:
  "records (snd (bulkDeleteTickets ids (Inr ()) st)) =
     filter (\<lambda>t. t_id t \<notin> set ids) (records st) \<and>
   subseq (records (snd (bulkDeleteTickets ids (Inr ()) st))) (records st) \<and>
   set (records (snd (bulkDeleteTickets ids (Inr ()) st))) =
     {t \<in> set (records st). t_id t \<notin> set ids} \<and>
   fst (bulkDeleteTickets ids (Inr ()) st) = Returned ()"
  by (simp add: bulkDeleteTickets_def Let_def arrayIncludes_set)

theorem bulk_delete_removes_selected_witness:
  "records (snd (bulkDeleteTickets [js ''42'', js ''99''] (Inr ()) state0)) = [ticket0]"
proof -
  have id0: "t_id ticket0 = js ''41''" by (simp add: ticket0_def transformRow_def row0_def) code_simp
  have id1: "t_id ticket1 = js ''42''" by (simp add: ticket1_def transformRow_def row0_def) code_simp
  have neq: "js ''41'' \<noteq> js ''42''" "js ''41'' \<noteq> js ''99''" by code_simp+
  from bulk_delete_removes_selected [of "[js ''42'', js ''99'']" state0] neq
  show ?thesis by (simp add: state0_def id0 id1)
qed

section \<open>C8: what \<open>updateTicket\<close> writes\<close>




section \<open>C4: the shipping date\<close>

text \<open>
  C4 at a form with \<open>shipped\<close> true and no shipping date: \<open>updateFeedback\<close> sends the
  current date, \<open>createFeedback\<close> inserts \<open>null\<close>. With \<open>shipped\<close> false or not set, both
  write \<open>null\<close>.
\<close>

theorem create_feedback_shipping_date:
  "ff_shipped feedbackForm0 = Some True \<and> ff_shipping_date feedbackForm0 = None \<and>
   fi_shipping_date (createFeedbackData (\<lambda>s. NaN) now0 feedbackForm0) = None \<and>
   fu_shipping_date (updateFeedbackData (\<lambda>s. NaN) now0 feedbackUpdate0) = Some (js ''2025-03-04'') \<and>
   ff_shipping_date (shippedEffect now0 feedbackForm0) = Some (js ''2025-03-04'') \<and>
   fi_shipping_date (createFeedbackData (\<lambda>s. NaN) now0
      (feedbackForm0\<lparr>ff_shipped := Some False, ff_shipping_date := Some (js ''2025-01-01'')\<rparr>)) = None \<and>
   fu_shipping_date (updateFeedbackData (\<lambda>s. NaN) now0
      (feedbackUpdate0\<lparr>fp_shipped := Some False, fp_shipping_date := Some (js ''2025-01-01'')\<rparr>)) = None"
proof -
  have iso: "isoDate now0 = js ''2025-03-04''" by code_simp
  show ?thesis
    by (simp add: feedbackForm0_def feedbackUpdate0_def createFeedbackData_def
        updateFeedbackData_def shippedEffect_def truthy_def Let_def iso)
qed

section \<open>C7: a failed backend call\<close>

text \<open>
  C7, as stated, covers every operation of the hooks. \<open>getUniqueTagsFromSupabase\<close>
  catches the error of its call, but it returns the empty list and the banner stays
  empty: no error text is shown.
\<close>

theorem unique_tags_failure_counterexample:
  "getUniqueTagsFromSupabase (\<lambda>xs. xs) (Inl (ErrorInstance (js ''timeout''))) state0 =
     (Returned [], state0) \<and>
   error state0 = None"
  by (simp add: getUniqueTagsFromSupabase_def state0_def)

text \<open>
  C7, amended. For \<open>fetch\<close>, \<open>create\<close>, \<open>update\<close>, \<open>delete\<close>, \<open>bulkDelete\<close>,
  \<open>bulkUpdateTicketStatus\<close> and \<open>search\<close> of the two hooks, when the backend call fails the
  banner shows the message of the error, or the operation's fixed text when the value
  thrown is not an \<open>Error\<close>; the local list is as before; the mutating operations throw
  the error again, while \<open>fetch\<close> and \<open>search\<close> return. The validation error of
  \<open>createTicket\<close> is handled in the same way.
\<close>

theorem failed_call_keeps_records:
  "fetchTickets now (Inl e) st =
     (Returned (), st\<lparr>loading := False, error := Some (errorMessage e (js ''Failed to fetch tickets''))\<rparr>) \<and>
   searchTickets now filters (Inl e) st =
     (Returned (), st\<lparr>loading := False, error := Some (errorMessage e (js ''Failed to search tickets''))\<rparr>) \<and>
   (createTicketData parseInt now data = Inr payload \<longrightarrow>
      createTicket parseInt now data (Inl e) st =
        (Threw e, st\<lparr>error := Some (errorMessage e (js ''Failed to create ticket''))\<rparr>)) \<and>
   (createTicketData parseInt now data = Inl v \<longrightarrow>
      createTicket parseInt now data response st =
        (Threw v, st\<lparr>error := Some (errorMessage v (js ''Failed to create ticket''))\<rparr>)) \<and>
   updateTicket tid updates (Inl e) st =
     (Threw e, st\<lparr>error := Some (errorMessage e (js ''Failed to update ticket''))\<rparr>) \<and>
   deleteTicket tid (Inl e) st =
     (Threw e, st\<lparr>error := Some (errorMessage e (js ''Failed to delete ticket''))\<rparr>) \<and>
   bulkDeleteTickets ids (Inl e) st =
     (Threw e, st\<lparr>error := Some (errorMessage e (js ''Failed to delete tickets''))\<rparr>) \<and>
   bulkUpdateTicketStatus now ids status (Inl e) st =
     (Threw e, st\<lparr>error := Some (errorMessage e (js ''Failed to update ticket status''))\<rparr>) \<and>
   fetchFeedback now (Inl e) fs =
     (Returned (), fs\<lparr>loading := False, error := Some (errorMessage e (js ''Failed to fetch feedback''))\<rparr>) \<and>
   searchFeedback now ffilters (Inl e) fs =
     (Returned (), fs\<lparr>loading := False, error := Some (errorMessage e (js ''Failed to search feedback''))\<rparr>) \<and>
   createFeedback now (Inl e) fs =
     (Threw e, fs\<lparr>error := Some (errorMessage e (js ''Failed to create feedback''))\<rparr>) \<and>
   updateFeedback tid (Inl e) fs =
     (Threw e, fs\<lparr>error := Some (errorMessage e (js ''Failed to update feedback''))\<rparr>) \<and>
   deleteFeedback tid (Inl e) fs =
     (Threw e, fs\<lparr>error := Some (errorMessage e (js ''Failed to delete feedback''))\<rparr>) \<and>
   bulkDeleteFeedback ids (Inl e) fs =
     (Threw e, fs\<lparr>error := Some (errorMessage e (js ''Failed to delete feedback''))\<rparr>)"
  by (simp add: fetchTickets_def searchTickets_def createTicket_def updateTicket_def
      deleteTicket_def bulkDeleteTickets_def bulkUpdateTicketStatus_def fetchFeedback_def
      searchFeedback_def createFeedback_def updateFeedback_def deleteFeedback_def
      bulkDeleteFeedback_def Let_def)

theorem failed_call_keeps_records_witness:
  "createTicketData (\<lambda>s. NaN) now0 (form0\<lparr>f_ticket_id := Some (js ''  '')\<rparr>) =
     Inl (ErrorInstance (js ''Ticket ID is required and cannot be empty'')) \<and>
   createTicket (\<lambda>s. NaN) now0 (form0\<lparr>f_ticket_id := Some (js ''  '')\<rparr>) (Inr row0) state0 =
     (Threw (ErrorInstance (js ''Ticket ID is required and cannot be empty'')),
      state0\<lparr>error := Some (js ''Ticket ID is required and cannot be empty'')\<rparr>) \<and>
   records (snd (deleteTicket (js ''41'') (Inl OtherValue) state0)) = records state0 \<and>
   error (snd (deleteTicket (js ''41'') (Inl OtherValue) state0)) =
     Some (js ''Failed to delete ticket'') \<and>
   updateFeedback (js ''41'') (Inl OtherValue) feedbackState0 =
     (Threw OtherValue, feedbackState0\<lparr>error := Some (js ''Failed to update feedback'')\<rparr>)"
proof -
  have t: "trim (js ''  '') = []" by code_simp
  have a: "createTicketData (\<lambda>s. NaN) now0 (form0\<lparr>f_ticket_id := Some (js ''  '')\<rparr>) =
     Inl (ErrorInstance (js ''Ticket ID is required and cannot be empty''))"
    by (simp add: createTicketData_def form0_def t)
  from failed_call_keeps_records [of now0 OtherValue state0 _ "\<lambda>s. NaN"
      "form0\<lparr>f_ticket_id := Some (js ''  '')\<rparr>" _
      "ErrorInstance (js ''Ticket ID is required and cannot be empty'')" "Inr row0" "js ''41''"
      _ _ _ feedbackState0] a
  show ?thesis by (simp add: errorMessage_def)
qed

section \<open>C2: the composition of the search filters\<close>










end
